theory Spec2Isabelle
  imports Main "HOL-Library.AList"
begin

section \<open>Values read from the control plane\<close>

text \<open>
  The code reads every JSON object with \<^verbatim>\<open>.get\<close>: a field is absent (\<open>None\<close>) or holds
  a value of the type the API documents for it. A record with optional fields is that
  object; Python's truth test on a field (\<^verbatim>\<open>if x\<close>, \<^verbatim>\<open>x or y\<close>) is written out.
\<close>

definition truthy :: "string option \<Rightarrow> bool" where
  "truthy s = (case s of None \<Rightarrow> False | Some t \<Rightarrow> t \<noteq> [])"

definition truthy_int :: "int option \<Rightarrow> bool" where
  "truthy_int n = (case n of None \<Rightarrow> False | Some k \<Rightarrow> k \<noteq> 0)"

definition py_or :: "string option \<Rightarrow> string option \<Rightarrow> string option" where
  "py_or a b = (if truthy a then a else b)"

definition fmt :: "string option \<Rightarrow> string" where
  \<comment> \<open>an optional string inside an f-string\<close>
  "fmt s = (case s of None \<Rightarrow> ''None'' | Some t \<Rightarrow> t)"

definition get_or_empty :: "string option \<Rightarrow> string" where
  \<comment> \<open>\<^verbatim>\<open>d.get(key, "")\<close>\<close>
  "get_or_empty s = (case s of None \<Rightarrow> [] | Some t \<Rightarrow> t)"

record public_endpoint =
  ep_host :: "string option"
  ep_port :: "int option"

record branch_endpoints =
  public :: "public_endpoint option"

record branch =
  branchId :: "string option"
  displayName :: "string option"
  parentId :: "string option"
  state :: "string option"
  endpoints :: "branch_endpoints option"
  br_id :: "string option"   \<comment> \<open>the field \<^verbatim>\<open>id\<close>\<close>

record cluster =
  cl_clusterId :: "string option"
  cl_id :: "string option"

record admin_user =
  admin_username :: "string option"
  admin_password :: "string option"

datatype body =
    ClustersBody "cluster list"
  | BranchesBody "branch list"
  | BranchBody branch
  | AdminBody admin_user

text \<open>A body of another shape is a JSON object without the field asked for.\<close>

definition clusters_of :: "body \<Rightarrow> cluster list" where
  \<comment> \<open>\<^verbatim>\<open>data.get("clusters") or []\<close>\<close>
  "clusters_of b = (case b of ClustersBody cs \<Rightarrow> cs | _ \<Rightarrow> [])"

definition branches_of :: "body \<Rightarrow> branch list" where
  \<comment> \<open>\<^verbatim>\<open>resp.json().get("branches", [])\<close>\<close>
  "branches_of b = (case b of BranchesBody bs \<Rightarrow> bs | _ \<Rightarrow> [])"

definition no_branch :: branch where
  "no_branch = \<lparr>branchId = None, displayName = None, parentId = None, state = None,
     endpoints = None, br_id = None\<rparr>"

definition branch_of :: "body \<Rightarrow> branch" where
  "branch_of b = (case b of BranchBody br \<Rightarrow> br | _ \<Rightarrow> no_branch)"

definition admin_of :: "body \<Rightarrow> admin_user" where
  "admin_of b = (case b of AdminBody a \<Rightarrow> a
     | _ \<Rightarrow> \<lparr>admin_username = None, admin_password = None\<rparr>)"

definition public_endpoints :: "branch \<Rightarrow> public_endpoint" where
  \<comment> \<open>\<^verbatim>\<open>(branch_info.get("endpoints") or {}).get("public") or {}\<close>\<close>
  "public_endpoints info =
     (case endpoints info of
        None \<Rightarrow> \<lparr>ep_host = None, ep_port = None\<rparr>
      | Some e \<Rightarrow> (case public e of
                    None \<Rightarrow> \<lparr>ep_host = None, ep_port = None\<rparr>
                  | Some p \<Rightarrow> p))"

section \<open>The process, its globals and the outside world\<close>

record create_payload =
  cp_displayName :: string
  cp_parentId :: "string option"
  cp_parentTimestamp :: "string option"

datatype request =
    ListClusters                          \<comment> \<open>GET /clusters\<close>
  | ListBranches string                   \<comment> \<open>GET /clusters/{c}/branches\<close>
  | CreateBranch string create_payload    \<comment> \<open>POST /clusters/{c}/branches\<close>
  | GetBranch string string               \<comment> \<open>GET /clusters/{c}/branches/{id}\<close>
  | DeleteBranch string string            \<comment> \<open>DELETE /clusters/{c}/branches/{id}\<close>
  | ResetBranch string string             \<comment> \<open>POST /clusters/{c}/branches/{id}:reset\<close>
  | CreateAdminUser string string string  \<comment> \<open>POST .../projects/{p}/clusters/{c}/branches/{name}/users\<close>

record conn =
  conn_host :: string
  conn_port :: int
  conn_username :: string
  conn_password :: string
  conn_database :: "string option"
  enable_ssl :: bool

datatype event =
    Call request        \<comment> \<open>one HTTP request sent\<close>
  | Sleep nat           \<comment> \<open>\<^verbatim>\<open>time.sleep(n)\<close>\<close>
  | Connect conn        \<comment> \<open>\<^verbatim>\<open>TiDBClient.connect\<close>\<close>
  | Query conn string   \<comment> \<open>\<^verbatim>\<open>client.query(sql)\<close>\<close>
  | Execute conn string \<comment> \<open>\<^verbatim>\<open>client.execute(sql)\<close>\<close>

datatype error =
    MissingCredentialsEnv  \<comment> \<open>RuntimeError: Set TIDBCLOUD_ACCESS_TOKEN or both ... in the .env file.\<close>
  | MissingAuthKeys        \<comment> \<open>RuntimeError: Provide TIDBCLOUD_ACCESS_TOKEN or both ...\<close>
  | NoManager              \<comment> \<open>AttributeError: a method called on None\<close>
  | TransportError         \<comment> \<open>the request raised, or \<^verbatim>\<open>raise_for_status\<close> did\<close>
  | NoClusters             \<comment> \<open>RuntimeError: No clusters found for the current API key.\<close>
  | MissingProjectId       \<comment> \<open>RuntimeError: TIDBCLOUD_PROJECT_ID is required to create branch admin users.\<close>
  | AdminIdsRequired       \<comment> \<open>RuntimeError: Project ID, cluster ID, and branch_name are required ...\<close>
  | BranchNotFound string  \<comment> \<open>RuntimeError: Branch `{name}` not found; ensure it exists ...\<close>
  | ParentNotFound string  \<comment> \<open>RuntimeError: Parent branch `{name}` not found.\<close>
  | BranchNotActive string int \<comment> \<open>RuntimeError: Branch {id} not active after {n} seconds.\<close>
  | MissingHost            \<comment> \<open>RuntimeError: Branch endpoints missing host; ...\<close>
  | MissingPort            \<comment> \<open>RuntimeError: Branch endpoints missing port; ...\<close>
  | ClientMissingHost      \<comment> \<open>RuntimeError: Branch host is missing; ...\<close>
  | ClientMissingPort      \<comment> \<open>RuntimeError: Branch port is missing; ...\<close>
  | DatabaseError          \<comment> \<open>the database client raised\<close>

record BranchManager =
  public_key :: "string option"
  private_key :: "string option"
  access_token :: "string option"
  cluster_id :: "string option"
  project_id :: "string option"

text \<open>
  One row of \<^verbatim>\<open>branch_credentials.csv\<close>, as \<^verbatim>\<open>csv.DictWriter\<close> writes it: text cells,
  \<open>None\<close> written as the empty cell. The port cell is empty or holds the decimal text of
  an integer; the model keeps the integer.
\<close>

record csv_row =
  col_branchName :: string
  col_clusterId :: string
  col_username :: string
  col_password :: string
  col_host :: string
  col_port :: "int option"
  col_database :: string

type_synonym row = "(string \<times> string) list"

record exec_result =
  rowcount :: int
  success :: bool
  message :: string

record world =
  env_access_token :: "string option"   \<comment> \<open>\<^verbatim>\<open>_access_token\<close>\<close>
  env_public_key :: "string option"     \<comment> \<open>\<^verbatim>\<open>_public_key\<close>\<close>
  env_private_key :: "string option"    \<comment> \<open>\<^verbatim>\<open>_private_key\<close>\<close>
  env_project_id :: "string option"     \<comment> \<open>\<^verbatim>\<open>_project_id\<close>\<close>
  env_cluster_id :: "string option"     \<comment> \<open>\<^verbatim>\<open>os.getenv("SERVERLESS_CLUSTER_ID")\<close>\<close>
  DEFAULT_DATABASE :: "string option"
  DEFAULT_PORT :: int
  branch_manager :: "BranchManager option"   \<comment> \<open>\<^verbatim>\<open>_branch_manager\<close>\<close>
  CREDENTIALS_FILE :: "csv_row list option"  \<comment> \<open>\<open>None\<close>: the file does not exist\<close>
  api :: "event list \<Rightarrow> request \<Rightarrow> body option"
  db_connect :: "event list \<Rightarrow> conn \<Rightarrow> bool"
  db_query :: "event list \<Rightarrow> conn \<Rightarrow> string \<Rightarrow> row list option"
  db_execute :: "event list \<Rightarrow> conn \<Rightarrow> string \<Rightarrow> exec_result option"
  trace :: "event list"

text \<open>
  The control plane and the database answer a request from everything that happened
  before it (\<open>trace\<close>: the requests, sleeps and statements so far, oldest first); \<open>None\<close>
  is a raised exception. An operation maps a world to its result, or the error it
  raised, and the world it leaves.
\<close>

type_synonym 'a io = "world \<Rightarrow> (error + 'a) \<times> world"

definition io_return :: "'a \<Rightarrow> 'a io" where
  "io_return x w = (Inr x, w)"

definition io_raise :: "error \<Rightarrow> 'a io" where
  "io_raise e w = (Inl e, w)"

definition io_bind :: "'a io \<Rightarrow> ('a \<Rightarrow> 'b io) \<Rightarrow> 'b io" where
  "io_bind m f w = (case m w of (Inl e, w') \<Rightarrow> (Inl e, w') | (Inr x, w') \<Rightarrow> f x w')"

definition log :: "event \<Rightarrow> world \<Rightarrow> world" where
  "log e w = w\<lparr>trace := trace w @ [e]\<rparr>"

section \<open>BranchManager\<close>

definition get_branch_manager :: "BranchManager io" where
  "get_branch_manager w =
     (case branch_manager w of
        Some m \<Rightarrow> (Inr m, w)
      | None \<Rightarrow>
          if \<not> truthy (env_access_token w)
             \<and> (env_public_key w = None \<or> env_private_key w = None)
          then (Inl MissingCredentialsEnv, w)
          else (let m = \<lparr>public_key = env_public_key w, private_key = env_private_key w,
                          access_token = env_access_token w, cluster_id = env_cluster_id w,
                          project_id = env_project_id w\<rparr>
                in (Inr m, w\<lparr>branch_manager := Some m\<rparr>)))"

text \<open>The methods below run on the process-wide instance, the only one the code makes.\<close>

definition mgr_request :: "request \<Rightarrow> body io" where
  "mgr_request req w =
     (case branch_manager w of
        None \<Rightarrow> (Inl NoManager, w)
      | Some m \<Rightarrow>
          if truthy (access_token m) \<or> (truthy (public_key m) \<and> truthy (private_key m))
          then ((case api w (trace w) req of None \<Rightarrow> Inl TransportError | Some b \<Rightarrow> Inr b),
                log (Call req) w)
          else (Inl MissingAuthKeys, w))"

definition get_default_cluster :: "string option io" where
  "get_default_cluster =
     io_bind (mgr_request ListClusters) (\<lambda>data.
       case clusters_of data of
         [] \<Rightarrow> io_raise NoClusters
       | c # _ \<Rightarrow> io_return (py_or (cl_clusterId c) (cl_id c)))"

definition mgr_cluster :: "string option io" where
  "mgr_cluster w =
     (case branch_manager w of
        None \<Rightarrow> (Inl NoManager, w)
      | Some m \<Rightarrow>
          if truthy (cluster_id m) then (Inr (cluster_id m), w)
          else (case get_default_cluster w of
                  (Inl e, w') \<Rightarrow> (Inl e, w')
                | (Inr c, w') \<Rightarrow> (Inr c, w'\<lparr>branch_manager := Some (m\<lparr>cluster_id := c\<rparr>)\<rparr>)))"

definition mgr_list_branches :: "branch list io" where
  "mgr_list_branches =
     io_bind mgr_cluster (\<lambda>c.
     io_bind (mgr_request (ListBranches (fmt c))) (\<lambda>b. io_return (branches_of b)))"

definition mgr_create_branch :: "string \<Rightarrow> string option \<Rightarrow> string option \<Rightarrow> body io" where
  "mgr_create_branch display_name parent_id parent_timestamp =
     io_bind mgr_cluster (\<lambda>c.
       mgr_request (CreateBranch (fmt c)
         \<lparr>cp_displayName = display_name,
          cp_parentId = (if truthy parent_id then parent_id else None),
          cp_parentTimestamp = (if truthy parent_timestamp then parent_timestamp else None)\<rparr>))"

definition mgr_get_branch :: "string \<Rightarrow> branch io" where
  "mgr_get_branch branch_id =
     io_bind mgr_cluster (\<lambda>c.
     io_bind (mgr_request (GetBranch (fmt c) branch_id)) (\<lambda>b. io_return (branch_of b)))"

definition mgr_delete_branch :: "string \<Rightarrow> body io" where
  "mgr_delete_branch branch_id =
     io_bind mgr_cluster (\<lambda>c. mgr_request (DeleteBranch (fmt c) branch_id))"

definition create_admin_user_for_branch ::
    "string option \<Rightarrow> string option \<Rightarrow> string option \<Rightarrow> admin_user io" where
  "create_admin_user_for_branch proj clus branch_name w =
     (case branch_manager w of
        None \<Rightarrow> (Inl NoManager, w)
      | Some m \<Rightarrow>
          io_bind (if truthy clus then io_return clus else mgr_cluster) (\<lambda>resolved_cluster.
            let resolved_project = py_or proj (project_id m) in
            if \<not> truthy resolved_project \<or> \<not> truthy resolved_cluster \<or> \<not> truthy branch_name
            then io_raise AdminIdsRequired
            else io_bind (mgr_request (CreateAdminUser (fmt resolved_project)
                            (fmt resolved_cluster) (fmt branch_name)))
                   (\<lambda>b. io_return (admin_of b))) w)"

section \<open>The credential cache file\<close>

record cred =
  branchName :: string
  clusterId :: "string option"
  username :: string
  password :: string
  host :: "string option"
  port :: "int option"
  database :: string

record payload = cred +
  source :: string

type_synonym cache = "((string \<times> string option) \<times> cred) list"

text \<open>
  A Python dict keeps its keys in insertion order and assigns an existing key in
  place: \<^const>\<open>AList.update\<close> on an association list.
\<close>

definition row_key :: "csv_row \<Rightarrow> string \<times> string option" where
  "row_key r = (col_branchName r, Some (col_clusterId r))"

definition row_record :: "csv_row \<Rightarrow> cred" where
  "row_record r =
     \<lparr>branchName = col_branchName r, clusterId = Some (col_clusterId r),
      username = col_username r, password = col_password r, host = Some (col_host r),
      port = col_port r, database = col_database r\<rparr>"

definition load_rows :: "csv_row list \<Rightarrow> cache" where
  "load_rows rows = fold (\<lambda>r records. AList.update (row_key r) (row_record r) records) rows []"

definition load_admin_credentials :: "world \<Rightarrow> cache" where
  "load_admin_credentials w =
     (case CREDENTIALS_FILE w of None \<Rightarrow> [] | Some rows \<Rightarrow> load_rows rows)"

definition entry_row :: "cred \<Rightarrow> csv_row" where
  "entry_row e =
     \<lparr>col_branchName = branchName e, col_clusterId = get_or_empty (clusterId e),
      col_username = username e, col_password = password e,
      col_host = get_or_empty (host e), col_port = port e, col_database = database e\<rparr>"

definition write_admin_credentials :: "cache \<Rightarrow> world \<Rightarrow> world" where
  "write_admin_credentials records w =
     w\<lparr>CREDENTIALS_FILE := Some (map (\<lambda>kv. entry_row (snd kv)) records)\<rparr>"

definition store_admin_credential :: "payload \<Rightarrow> world \<Rightarrow> world" where
  "store_admin_credential entry w =
     (let cache = load_admin_credentials w;
          key = (branchName entry, clusterId entry)
      in write_admin_credentials
           (AList.update key
              \<lparr>branchName = branchName entry, clusterId = clusterId entry,
               username = username entry, password = password entry, host = host entry,
               port = port entry, database = database entry\<rparr> cache) w)"

definition get_cached_admin_credential :: "string \<Rightarrow> string option \<Rightarrow> world \<Rightarrow> cred option" where
  "get_cached_admin_credential branch_name clus w =
     map_of (load_admin_credentials w) (branch_name, clus)"

definition delete_admin_credential :: "string \<Rightarrow> string option \<Rightarrow> world \<Rightarrow> world" where
  "delete_admin_credential branch_name clus w =
     (let cache = load_admin_credentials w; key = (branch_name, clus)
      in if key \<in> fst ` set cache then write_admin_credentials (AList.delete key cache) w
         else w)"

section \<open>Resolving, waiting, and the credential broker\<close>

fun find_branch_id :: "string \<Rightarrow> branch list \<Rightarrow> string option" where
  "find_branch_id display_name [] = None"
| "find_branch_id display_name (br # brs) =
     (if displayName br = Some display_name then branchId br
      else find_branch_id display_name brs)"

definition resolve_branch_id :: "string \<Rightarrow> string option io" where
  "resolve_branch_id display_name =
     io_bind get_branch_manager (\<lambda>_.
     io_bind mgr_list_branches (\<lambda>branches. io_return (find_branch_id display_name branches)))"

text \<open>
  The loop of \<^verbatim>\<open>_wait_for_branch_active\<close>, by the attempts left: \<open>True\<close> when a poll saw
  ACTIVE (the early \<^verbatim>\<open>return\<close>), \<open>False\<close> when the range ran out.
\<close>

fun wait_loop :: "nat \<Rightarrow> string \<Rightarrow> nat \<Rightarrow> bool io" where
  "wait_loop 0 branch_id delay_seconds w = (Inr False, w)"
| "wait_loop (Suc n) branch_id delay_seconds w =
     (case mgr_get_branch branch_id w of
        (Inl e, w') \<Rightarrow> (Inl e, w')
      | (Inr info, w') \<Rightarrow>
          if state info = Some ''ACTIVE'' then (Inr True, w')
          else wait_loop n branch_id delay_seconds (log (Sleep delay_seconds) w'))"

definition wait_for_branch_active :: "string \<Rightarrow> int \<Rightarrow> nat \<Rightarrow> unit io" where
  "wait_for_branch_active branch_id retries delay_seconds =
     io_bind (wait_loop (nat retries) branch_id delay_seconds) (\<lambda>active.
       if active then io_return ()
       else io_raise (BranchNotActive branch_id (retries * int delay_seconds)))"

definition refresh_endpoints :: "string \<Rightarrow> public_endpoint \<Rightarrow> public_endpoint io" where
  \<comment> \<open>"Some APIs may only populate endpoints after admin creation; refresh if host/port
     missing."\<close>
  "refresh_endpoints branch_id ep =
     (if \<not> truthy (ep_host ep) \<or> \<not> truthy_int (ep_port ep)
      then io_bind (mgr_get_branch branch_id) (\<lambda>branch_info.
             io_return (public_endpoints branch_info))
      else io_return ep)"

definition store_created ::
    "string \<Rightarrow> string option \<Rightarrow> admin_user \<Rightarrow> public_endpoint \<Rightarrow> payload io" where
  \<comment> \<open>\<^verbatim>\<open>entry = {...}\<close>, \<^verbatim>\<open>payload = {"source": "created", **entry}\<close>,
     \<^verbatim>\<open>_store_admin_credential(payload)\<close>\<close>
  "store_created branch_name resolved_cluster admin_info ep w =
     (let entry = \<lparr>branchName = branch_name, clusterId = resolved_cluster,
                     username = get_or_empty (admin_username admin_info),
                     password = get_or_empty (admin_password admin_info),
                     host = ep_host ep, port = ep_port ep,
                     database = get_or_empty (py_or (DEFAULT_DATABASE w) (Some [])),
                     source = ''created''\<rparr>
      in (Inr entry, store_admin_credential entry w))"

definition provision :: "string \<Rightarrow> string option \<Rightarrow> payload io" where
  \<comment> \<open>the \<^verbatim>\<open>else\<close> branch of \<^verbatim>\<open>_ensure_admin_credential\<close>\<close>
  "provision branch_name resolved_cluster =
     io_bind (resolve_branch_id branch_name) (\<lambda>found.
       case found of
         None \<Rightarrow> io_raise (BranchNotFound branch_name)
       | Some branch_id \<Rightarrow>
     io_bind (wait_for_branch_active branch_id 20 10) (\<lambda>_.
     io_bind (mgr_get_branch branch_id) (\<lambda>branch_info.
     io_bind (create_admin_user_for_branch None resolved_cluster (Some branch_name))
       (\<lambda>admin_info.
     io_bind (refresh_endpoints branch_id (public_endpoints branch_info))
       (store_created branch_name resolved_cluster admin_info)))))"

definition validate :: "payload \<Rightarrow> payload io" where
  \<comment> \<open>the checks after the \<^verbatim>\<open>if\<close>/\<^verbatim>\<open>else\<close> of \<^verbatim>\<open>_ensure_admin_credential\<close>\<close>
  "validate p w =
     (if \<not> truthy (host p) then (Inl MissingHost, w)
      else if \<not> truthy_int (port p) then (Inl MissingPort, w)
      else if truthy (DEFAULT_DATABASE w) \<and> database p = []
      then (Inr (p\<lparr>database := get_or_empty (DEFAULT_DATABASE w)\<rparr>), w)
      else (Inr p, w))"

definition from_cache :: "cred \<Rightarrow> payload" where
  \<comment> \<open>\<^verbatim>\<open>{"source": "cache", **cached}\<close>\<close>
  "from_cache cached =
     \<lparr>branchName = branchName cached, clusterId = clusterId cached,
      username = username cached, password = password cached, host = host cached,
      port = port cached, database = database cached, source = ''cache''\<rparr>"

definition usable :: "cred \<Rightarrow> bool" where
  \<comment> \<open>\<^verbatim>\<open>cached.get("host") and cached.get("port")\<close>\<close>
  "usable cached = (truthy (host cached) \<and> truthy_int (port cached))"

definition resolve_cluster :: "string option \<Rightarrow> string option io" where
  \<comment> \<open>\<^verbatim>\<open>cluster_id or manager._cluster()\<close>\<close>
  "resolve_cluster clus = (if truthy clus then io_return clus else mgr_cluster)"

definition lookup_or_provision :: "string \<Rightarrow> string option \<Rightarrow> payload io" where
  \<comment> \<open>the cache lookup and the \<^verbatim>\<open>if\<close>/\<^verbatim>\<open>else\<close> that binds \<^verbatim>\<open>payload\<close>\<close>
  "lookup_or_provision branch_name resolved_cluster w =
     (case get_cached_admin_credential branch_name resolved_cluster w of
        None \<Rightarrow> provision branch_name resolved_cluster w
      | Some cached \<Rightarrow>
          if usable cached then (Inr (from_cache cached), w)
          else provision branch_name resolved_cluster w)"

definition ensure_admin_credential :: "string \<Rightarrow> string option \<Rightarrow> payload io" where
  "ensure_admin_credential branch_name clus =
     io_bind get_branch_manager (\<lambda>_.
     io_bind (resolve_cluster clus) (\<lambda>resolved_cluster w.
       if \<not> truthy (env_project_id w) then (Inl MissingProjectId, w)
       else io_bind (lookup_or_provision branch_name resolved_cluster) validate w))"

section \<open>The tools\<close>

definition create_branch :: "string \<Rightarrow> string option \<Rightarrow> body io" where
  "create_branch display_name parent_id =
     io_bind get_branch_manager (\<lambda>_.
     io_bind (mgr_create_branch display_name parent_id None) (\<lambda>created.
       let branch_id = py_or (branchId (branch_of created)) (br_id (branch_of created)) in
       case (if truthy branch_id then branch_id else None) of
         None \<Rightarrow> io_return created
       | Some bid \<Rightarrow> io_bind (wait_for_branch_active bid 20 10) (\<lambda>_. io_return created)))"

text \<open>
  \<^verbatim>\<open>delete_branch\<close>: the clean-up of the cache runs inside \<^verbatim>\<open>try ... except Exception: pass\<close>,
  so an error there is dropped; what it did before raising stays done.
\<close>

definition cleanup_cached_credential :: "string \<Rightarrow> unit io" where
  \<comment> \<open>the body of the \<^verbatim>\<open>try\<close>\<close>
  "cleanup_cached_credential branch_id =
     io_bind (mgr_get_branch branch_id) (\<lambda>info.
       if truthy (displayName info)
       then io_bind mgr_cluster (\<lambda>c w.
              (Inr (), delete_admin_credential (get_or_empty (displayName info)) c w))
       else io_return ())"

definition delete_branch :: "string \<Rightarrow> body io" where
  "delete_branch branch_id =
     io_bind get_branch_manager (\<lambda>_.
     io_bind (mgr_delete_branch branch_id) (\<lambda>deleted w.
       (Inr deleted, snd (cleanup_cached_credential branch_id w))))"

definition connect_branch_client :: "payload \<Rightarrow> conn io" where
  "connect_branch_client creds w =
     (if \<not> truthy (host creds) then (Inl ClientMissingHost, w)
      else if \<not> truthy_int (port creds) then (Inl ClientMissingPort, w)
      else (let c = \<lparr>conn_host = get_or_empty (host creds),
                      conn_port = (case port creds of
                                     Some p \<Rightarrow> if p \<noteq> 0 then p else DEFAULT_PORT w
                                   | None \<Rightarrow> DEFAULT_PORT w),
                      conn_username = username creds, conn_password = password creds,
                      conn_database = py_or (Some (database creds)) (DEFAULT_DATABASE w),
                      enable_ssl = True\<rparr>
            in ((if db_connect w (trace w) c then Inr c else Inl DatabaseError),
                log (Connect c) w)))"

definition client_query :: "conn \<Rightarrow> string \<Rightarrow> row list io" where
  "client_query c sql w =
     ((case db_query w (trace w) c sql of None \<Rightarrow> Inl DatabaseError | Some rows \<Rightarrow> Inr rows),
      log (Query c sql) w)"

definition client_execute :: "conn \<Rightarrow> string \<Rightarrow> exec_result io" where
  "client_execute c sql w =
     ((case db_execute w (trace w) c sql of None \<Rightarrow> Inl DatabaseError | Some r \<Rightarrow> Inr r),
      log (Execute c sql) w)"

text \<open>
  \<^verbatim>\<open>str.strip\<close> and \<^verbatim>\<open>str.lower\<close> on text whose code points are below 256: the white
  space of \<^verbatim>\<open>str.isspace\<close> there, and the capital letters of ASCII and Latin-1.
\<close>

definition isspace :: "char \<Rightarrow> bool" where
  "isspace c = (let n = (of_char c :: nat)
                in (9 \<le> n \<and> n \<le> 13) \<or> (28 \<le> n \<and> n \<le> 32) \<or> n = 133 \<or> n = 160)"

definition strip :: "string \<Rightarrow> string" where
  "strip s = rev (dropWhile isspace (rev (dropWhile isspace s)))"

definition lower_char :: "char \<Rightarrow> char" where
  "lower_char c = (let n = (of_char c :: nat)
                   in if (65 \<le> n \<and> n \<le> 90) \<or> (192 \<le> n \<and> n \<le> 222 \<and> n \<noteq> 215)
                      then char_of (n + 32) else c)"

definition lower :: "string \<Rightarrow> string" where
  "lower s = map lower_char s"

definition startswith :: "string \<Rightarrow> string \<Rightarrow> bool" where
  "startswith s p = (take (length p) s = p)"

datatype sql_result =
    RowsResult string "row list"         \<comment> \<open>\<^verbatim>\<open>{"branch": ..., "rows": ...}\<close>\<close>
  | ExecResult string int bool string    \<comment> \<open>\<^verbatim>\<open>{"branch": ..., "rowcount": ..., "success": ..., "message": ...}\<close>\<close>

definition run_sql_on_branch :: "string \<Rightarrow> string \<Rightarrow> sql_result io" where
  "run_sql_on_branch branch_name sql =
     io_bind (ensure_admin_credential branch_name None) (\<lambda>creds.
     io_bind (connect_branch_client creds) (\<lambda>client.
       let sql_clean = lower (strip sql) in
       if startswith sql_clean ''select''
       then io_bind (client_query client sql) (\<lambda>rows.
              io_return (RowsResult branch_name rows))
       else io_bind (client_execute client sql) (\<lambda>result.
              io_return (ExecResult branch_name (rowcount result) (success result)
                           (message result)))))"

section \<open>Reading a run: events, frames\<close>

definition is_get_branch :: "event \<Rightarrow> bool" where
  "is_get_branch e = (case e of Call (GetBranch c b) \<Rightarrow> True | _ \<Rightarrow> False)"

definition is_create_admin :: "event \<Rightarrow> bool" where
  "is_create_admin e = (case e of Call (CreateAdminUser p c b) \<Rightarrow> True | _ \<Rightarrow> False)"


definition broker_event :: "event \<Rightarrow> bool" where
  \<comment> \<open>what the credential broker may do to the outside: list clusters and branches, get a
     branch, create an admin user, sleep\<close>
  "broker_event e =
     (case e of
        Call ListClusters \<Rightarrow> True
      | Call (ListBranches c) \<Rightarrow> True
      | Call (GetBranch c b) \<Rightarrow> True
      | Call (CreateAdminUser p c b) \<Rightarrow> True
      | Sleep n \<Rightarrow> True
      | _ \<Rightarrow> False)"

definition outside :: "world \<Rightarrow> world" where
  \<comment> \<open>the part of the world no operation writes: the environment, the control plane, the
     database\<close>
  "outside w = w\<lparr>branch_manager := None, CREDENTIALS_FILE := None, trace := []\<rparr>"

definition runs :: "world \<Rightarrow> world \<Rightarrow> bool" where
  \<comment> \<open>\<open>w'\<close> comes from \<open>w\<close> by broker events only, with the cache file untouched and the
     manager kept (and kept as it is once it holds a cluster id)\<close>
  "runs w w' =
     (outside w' = outside w \<and> CREDENTIALS_FILE w' = CREDENTIALS_FILE w
      \<and> (\<exists>evs. trace w' = trace w @ evs \<and> list_all broker_event evs)
      \<and> (\<forall>m. branch_manager w = Some m \<longrightarrow>
             branch_manager w' \<noteq> None
             \<and> (truthy (cluster_id m) \<longrightarrow> branch_manager w' = Some m)))"

definition row_entry :: "csv_row \<Rightarrow> (string \<times> string option) \<times> cred" where
  \<comment> \<open>the dict item \<^verbatim>\<open>_load_admin_credentials\<close> makes of a row\<close>
  "row_entry r = (row_key r, row_record r)"

definition plumbing :: "error \<Rightarrow> bool" where
  \<comment> \<open>every error but the two of the final checks\<close>
  "plumbing e = (e \<noteq> MissingHost \<and> e \<noteq> MissingPort)"

text \<open>
  The answers the control plane gave to the get-branch requests of a run: \<open>pre\<close> is what
  had happened before the run, \<open>a\<close> the control plane.
\<close>

fun polls :: "(event list \<Rightarrow> request \<Rightarrow> body option) \<Rightarrow> event list \<Rightarrow> event list
    \<Rightarrow> body option list" where
  "polls a pre [] = []"
| "polls a pre (e # es) =
     (case e of Call (GetBranch c b) \<Rightarrow> [a pre (GetBranch c b)] | _ \<Rightarrow> [])
     @ polls a (pre @ [e]) es"

definition active_reply :: "body option \<Rightarrow> bool" where
  "active_reply p = (case p of None \<Rightarrow> False | Some b \<Rightarrow> state (branch_of b) = Some ''ACTIVE'')"

definition answered_not_active :: "body option \<Rightarrow> bool" where
  "answered_not_active p =
     (case p of None \<Rightarrow> False | Some b \<Rightarrow> state (branch_of b) \<noteq> Some ''ACTIVE'')"

section \<open>Scenario worlds\<close>

text \<open>
  The scenario of \<^verbatim>\<open>test_branch_auth.py\<close>: one cluster \<^verbatim>\<open>cluster-1\<close>, one branch \<^verbatim>\<open>demo-branch\<close>
  with id \<^verbatim>\<open>b1\<close>, admin user \<^verbatim>\<open>u1\<close>/\<^verbatim>\<open>p1\<close>. The control plane answers the n-th
  \<^verbatim>\<open>get_branch\<close> with the n-th entry of a script (\<open>None\<close>, or past its end: the request
  fails).
\<close>

definition branch_b1 :: "string option \<Rightarrow> public_endpoint option \<Rightarrow> branch" where
  "branch_b1 st ep =
     \<lparr>branchId = Some ''b1'', displayName = Some ''demo-branch'', parentId = None, state = st,
      endpoints = (case ep of None \<Rightarrow> None | Some p \<Rightarrow> Some \<lparr>public = Some p\<rparr>),
      br_id = None\<rparr>"

definition scripted_api :: "branch option list \<Rightarrow> event list \<Rightarrow> request \<Rightarrow> body option" where
  "scripted_api script tr req =
     (case req of
        ListClusters \<Rightarrow>
          Some (ClustersBody [\<lparr>cl_clusterId = Some ''cluster-1'', cl_id = None\<rparr>])
      | ListBranches c \<Rightarrow> Some (BranchesBody [branch_b1 None None])
      | GetBranch c b \<Rightarrow>
          (case drop (length (filter is_get_branch tr)) script of
             [] \<Rightarrow> None
           | answer # _ \<Rightarrow> map_option BranchBody answer)
      | DeleteBranch c b \<Rightarrow> Some (BranchBody (branch_b1 None None))
      | CreateAdminUser p c b \<Rightarrow>
          Some (AdminBody \<lparr>admin_username = Some ''u1'', admin_password = Some ''p1''\<rparr>)
      | _ \<Rightarrow> None)"

definition scripted_world :: "branch option list \<Rightarrow> world" where
  "scripted_world script =
     \<lparr>env_access_token = Some ''token'', env_public_key = None, env_private_key = None,
      env_project_id = Some ''proj'', env_cluster_id = Some ''cluster-1'',
      DEFAULT_DATABASE = None, DEFAULT_PORT = 4000, branch_manager = None,
      CREDENTIALS_FILE = None, api = scripted_api script, db_connect = (\<lambda>tr c. True),
      db_query = (\<lambda>tr c sql. Some [[(''1'', ''1'')]]),
      db_execute = (\<lambda>tr c sql. Some \<lparr>rowcount = 0, success = True, message = ''ok''\<rparr>),
      trace = []\<rparr>"

definition h1_1234 :: public_endpoint where
  "h1_1234 = \<lparr>ep_host = Some ''h1'', ep_port = Some 1234\<rparr>"

definition demo_world :: world where
  \<comment> \<open>CREATING, then ACTIVE without endpoints (twice), then ACTIVE with h1:1234\<close>
  "demo_world =
     scripted_world
       [Some (branch_b1 (Some ''CREATING'') None), Some (branch_b1 (Some ''ACTIVE'') None),
        Some (branch_b1 (Some ''ACTIVE'') None),
        Some (branch_b1 (Some ''ACTIVE'') (Some h1_1234))]"

definition demo_creds :: payload where
  "demo_creds =
     \<lparr>branchName = ''demo-branch'', clusterId = Some ''cluster-1'', username = ''u1'',
      password = ''p1'', host = Some ''h1'', port = Some 1234, database = [],
      source = ''created''\<rparr>"

definition demo_conn :: conn where
  "demo_conn =
     \<lparr>conn_host = ''h1'', conn_port = 1234, conn_username = ''u1'', conn_password = ''p1'',
      conn_database = None, enable_ssl = True\<rparr>"

definition demo_manager :: BranchManager where
  \<comment> \<open>the manager \<^verbatim>\<open>_get_branch_manager\<close> builds in the worlds below\<close>
  "demo_manager =
     \<lparr>public_key = None, private_key = None, access_token = Some ''token'',
      cluster_id = None, project_id = Some ''proj''\<rparr>"

definition cached_record :: cred where
  "cached_record =
     \<lparr>branchName = ''demo-branch'', clusterId = Some ''cluster-1'', username = ''u1'',
      password = ''p1'', host = Some ''h1'', port = Some 1234, database = []\<rparr>"

definition cached_world :: world where
  \<comment> \<open>a usable credential in the cache file, a default database, no cluster id configured\<close>
  "cached_world =
     (scripted_world [])\<lparr>env_cluster_id := None, DEFAULT_DATABASE := Some ''test'',
        CREDENTIALS_FILE := Some [entry_row cached_record]\<rparr>"

definition bare_world :: world where
  \<comment> \<open>the branch is ACTIVE at once and never shows endpoints\<close>
  "bare_world =
     scripted_world
       [Some (branch_b1 (Some ''ACTIVE'') None), Some (branch_b1 (Some ''ACTIVE'') None),
        Some (branch_b1 (Some ''ACTIVE'') None), Some (branch_b1 (Some ''ACTIVE'') None),
        Some (branch_b1 (Some ''ACTIVE'') None), Some (branch_b1 (Some ''ACTIVE'') None)]"

definition demo_manager_c1 :: BranchManager where
  "demo_manager_c1 = demo_manager\<lparr>cluster_id := Some ''cluster-1''\<rparr>"

definition bare_creds :: payload where
  "bare_creds =
     \<lparr>branchName = ''demo-branch'', clusterId = Some ''cluster-1'', username = ''u1'',
      password = ''p1'', host = None, port = None, database = [], source = ''created''\<rparr>"

definition stuck_world :: world where
  "stuck_world =
     snd (get_branch_manager
       (scripted_world [Some (branch_b1 (Some ''CREATING'') None),
                        Some (branch_b1 (Some ''CREATING'') None)]))"

definition ready_world :: world where
  \<comment> \<open>the test scenario, the manager built\<close>
  "ready_world = snd (get_branch_manager demo_world)"

definition lingering_world :: world where
  \<comment> \<open>a cached credential, and a control plane that still shows the branch after the
     delete\<close>
  "lingering_world =
     (scripted_world [Some (branch_b1 (Some ''DELETING'') None)])
       \<lparr>CREDENTIALS_FILE := Some [entry_row cached_record]\<rparr>"

definition bare_world_after :: world where
  \<comment> \<open>\<open>bare_world\<close> after one failed resolution: the manager built, the incomplete row
     written, five requests sent\<close>
  "bare_world_after =
     bare_world\<lparr>branch_manager := Some demo_manager_c1,
       CREDENTIALS_FILE := Some [entry_row (cred.truncate bare_creds)],
       trace := [Call (ListBranches ''cluster-1''), Call (GetBranch ''cluster-1'' ''b1''),
                 Call (GetBranch ''cluster-1'' ''b1''),
                 Call (CreateAdminUser ''proj'' ''cluster-1'' ''demo-branch''),
                 Call (GetBranch ''cluster-1'' ''b1'')]\<rparr>"

section \<open>Lemmas: sequencing and frames\<close>

lemma io_bind_Inr: "m w = (Inr x, w') \<Longrightarrow> io_bind m f w = f x w'"
  by (simp add: io_bind_def)

lemma io_bind_Inl: "m w = (Inl e, w') \<Longrightarrow> io_bind m f w = (Inl e, w')"
  by (simp add: io_bind_def)

lemma io_bind_cases:
  assumes "io_bind m f w = (r, w'')"
  obtains (raised) e where "m w = (Inl e, w'')" "r = Inl e"
        | (returned) x w' where "m w = (Inr x, w')" "f x w' = (r, w'')"
proof (cases "m w")
  case (Pair a w')
  show ?thesis
  proof (cases a)
    case (Inl e)
    with Pair assms show ?thesis by (auto simp: io_bind_def intro: raised)
  next
    case (Inr x)
    with Pair assms show ?thesis by (auto simp: io_bind_def intro: returned)
  qed
qed

lemma validate_Inr:
  "validate p w = (Inr q, w') \<Longrightarrow>
     w' = w \<and> truthy (host q) \<and> truthy_int (port q) \<and> host q = host p \<and> port q = port p
     \<and> (truthy (DEFAULT_DATABASE w) \<longrightarrow> database q \<noteq> [])"
  by (auto simp: validate_def truthy_def get_or_empty_def split: if_splits option.splits)

lemma pair_fstI: "fst x = a \<Longrightarrow> x = (a, snd x)"
  by (cases x) simp

lemma runs_refl: "runs w w"
  unfolding runs_def by auto

lemma runs_trans: "runs w w' \<Longrightarrow> runs w' w'' \<Longrightarrow> runs w w''"
  unfolding runs_def
  apply (intro conjI)
     apply simp
    apply simp
   apply (elim conjE exE)
   apply (rule_tac x="evs @ evsa" in exI)
   apply simp
  apply (intro allI impI)
  apply (elim conjE)
  apply (drule_tac x=m in spec)
  apply (erule impE, assumption)
  apply (elim conjE)
  apply (cases "branch_manager w'")
   apply simp
  apply (drule_tac x=a in spec)
  apply auto
  done

lemma runs_outside:
  assumes "runs w w'"
  shows "api w' = api w" "env_project_id w' = env_project_id w"
    "DEFAULT_DATABASE w' = DEFAULT_DATABASE w" "CREDENTIALS_FILE w' = CREDENTIALS_FILE w"
proof -
  from assms have o: "outside w' = outside w" and f: "CREDENTIALS_FILE w' = CREDENTIALS_FILE w"
    by (simp_all add: runs_def)
  have "api (outside w') = api (outside w)" using o by simp
  then show "api w' = api w" by (simp add: outside_def)
  have "env_project_id (outside w') = env_project_id (outside w)" using o by simp
  then show "env_project_id w' = env_project_id w" by (simp add: outside_def)
  have "DEFAULT_DATABASE (outside w') = DEFAULT_DATABASE (outside w)" using o by simp
  then show "DEFAULT_DATABASE w' = DEFAULT_DATABASE w" by (simp add: outside_def)
  show "CREDENTIALS_FILE w' = CREDENTIALS_FILE w" by (rule f)
qed

lemma runs_log: "broker_event e \<Longrightarrow> runs w (log e w)"
  unfolding runs_def log_def outside_def
  by auto

lemma runs_bind:
  assumes "io_bind m f w = (r, w'')"
    and "\<And>r' w'. m w = (r', w') \<Longrightarrow> runs w w'"
    and "\<And>x w'. m w = (Inr x, w') \<Longrightarrow> f x w' = (r, w'') \<Longrightarrow> runs w' w''"
  shows "runs w w''"
  using assms(1)
proof (cases rule: io_bind_cases)
  case (raised e)
  then show ?thesis using assms(2) by blast
next
  case (returned x w')
  then show ?thesis using assms(2,3) runs_trans by blast
qed

lemma runs_get_branch_manager: "get_branch_manager w = (r, w') \<Longrightarrow> runs w w'"
  unfolding get_branch_manager_def runs_def outside_def
  by (auto split: option.splits if_splits simp: Let_def)

lemma runs_mgr_request: "broker_event (Call req) \<Longrightarrow> mgr_request req w = (r, w') \<Longrightarrow> runs w w'"
  unfolding mgr_request_def
  by (auto split: option.splits if_splits simp: runs_refl runs_log)

lemma runs_get_default_cluster: "get_default_cluster w = (r, w') \<Longrightarrow> runs w w'"
  unfolding get_default_cluster_def
  apply (erule runs_bind)
   apply (erule runs_mgr_request[rotated], simp add: broker_event_def)
  apply (auto simp: io_raise_def io_return_def runs_refl split: list.splits)
  done


lemma runs_set_manager:
  "runs w w' \<Longrightarrow> branch_manager w = Some m \<Longrightarrow> \<not> truthy (cluster_id m)
   \<Longrightarrow> runs w (w'\<lparr>branch_manager := Some m'\<rparr>)"
  unfolding runs_def outside_def by auto

lemma runs_mgr_cluster: "mgr_cluster w = (r, w') \<Longrightarrow> runs w w'"
  unfolding mgr_cluster_def
  by (auto split: option.splits if_splits prod.splits sum.splits
      simp: runs_refl dest: runs_get_default_cluster intro: runs_set_manager)

lemma runs_mgr_list_branches: "mgr_list_branches w = (r, w') \<Longrightarrow> runs w w'"
  unfolding mgr_list_branches_def
  apply (erule runs_bind)
   apply (erule runs_mgr_cluster)
  apply (erule runs_bind)
   apply (erule runs_mgr_request[rotated], simp add: broker_event_def)
  apply (simp add: io_return_def runs_refl)
  done

lemma runs_mgr_get_branch: "mgr_get_branch bid w = (r, w') \<Longrightarrow> runs w w'"
  unfolding mgr_get_branch_def
  apply (erule runs_bind)
   apply (erule runs_mgr_cluster)
  apply (erule runs_bind)
   apply (erule runs_mgr_request[rotated], simp add: broker_event_def)
  apply (simp add: io_return_def runs_refl)
  done

lemma runs_request_return:
  "io_bind (mgr_request req) (\<lambda>b. io_return (g b)) w = (r, w') \<Longrightarrow> broker_event (Call req)
   \<Longrightarrow> runs w w'"
  apply (erule runs_bind)
   apply (erule runs_mgr_request[rotated], assumption)
  apply (simp add: io_return_def runs_refl)
  done

lemma runs_create_admin_user_for_branch:
  "create_admin_user_for_branch proj clus bn w = (r, w') \<Longrightarrow> runs w w'"
  unfolding create_admin_user_for_branch_def
  apply (cases "branch_manager w")
   apply (simp add: runs_refl)
  apply simp
  apply (erule runs_bind)
   apply (auto simp: io_return_def runs_refl dest: runs_mgr_cluster split: if_splits)[1]
  apply (auto simp: Let_def io_raise_def runs_refl broker_event_def split: if_splits
      dest!: runs_request_return)
  done

lemma runs_resolve_branch_id: "resolve_branch_id n w = (r, w') \<Longrightarrow> runs w w'"
  unfolding resolve_branch_id_def
  apply (erule runs_bind)
   apply (erule runs_get_branch_manager)
  apply (erule runs_bind)
   apply (erule runs_mgr_list_branches)
  apply (simp add: io_return_def runs_refl)
  done

lemma runs_wait_loop: "wait_loop n bid d w = (r, w') \<Longrightarrow> runs w w'"
proof (induction n arbitrary: w)
  case 0
  then show ?case by (simp add: runs_refl)
next
  case (Suc n)
  obtain a w1 where g: "mgr_get_branch bid w = (a, w1)" by (cases "mgr_get_branch bid w")
  then have r1: "runs w w1" by (rule runs_mgr_get_branch)
  show ?case
  proof (cases a)
    case (Inl e)
    with Suc.prems g r1 show ?thesis by simp
  next
    case (Inr info)
    show ?thesis
    proof (cases "state info = Some ''ACTIVE''")
      case True
      with Suc.prems g Inr r1 show ?thesis by simp
    next
      case False
      with Suc.prems g Inr have "wait_loop n bid d (log (Sleep d) w1) = (r, w')" by simp
      then have "runs (log (Sleep d) w1) w'" by (rule Suc.IH)
      moreover have "runs w1 (log (Sleep d) w1)" by (simp add: runs_log broker_event_def)
      ultimately show ?thesis using r1 runs_trans by blast
    qed
  qed
qed

lemma runs_wait_for_branch_active: "wait_for_branch_active bid n d w = (r, w') \<Longrightarrow> runs w w'"
  unfolding wait_for_branch_active_def
  apply (erule runs_bind)
   apply (erule runs_wait_loop)
  apply (simp add: io_return_def io_raise_def runs_refl split: if_splits)
  done

section \<open>Lemmas: the cache file\<close>

lemma entry_row_row_record: "entry_row (row_record r) = r"
  by (simp add: entry_row_def row_record_def get_or_empty_def)

lemma load_rows_snoc:
  "load_rows (rows @ [r]) = AList.update (row_key r) (row_record r) (load_rows rows)"
  by (simp add: load_rows_def)

lemma map_of_load_rows: "map_of (load_rows rows) = map_of (rev (map row_entry rows))"
proof (induction rows rule: rev_induct)
  case Nil
  then show ?case by (simp add: load_rows_def)
next
  case (snoc r rows)
  then show ?case
    by (simp add: load_rows_snoc update_conv' row_entry_def)
qed

lemma load_rows_distinct: "distinct (map fst (load_rows rows))"
  by (induction rows rule: rev_induct) (simp_all add: load_rows_def distinct_update)

lemma set_alist_update: "set (AList.update k v al) \<subseteq> insert (k, v) (set al)"
  by (induction al) auto

lemma load_rows_normal: "e \<in> set (load_rows rows) \<Longrightarrow> \<exists>r. e = row_entry r"
proof (induction rows arbitrary: e rule: rev_induct)
  case Nil
  then show ?case by (simp add: load_rows_def)
next
  case (snoc r rows)
  from snoc.prems have "e \<in> set (AList.update (row_key r) (row_record r) (load_rows rows))"
    by (simp add: load_rows_snoc)
  then have "e = (row_key r, row_record r) \<or> e \<in> set (load_rows rows)"
    using set_alist_update by fastforce
  then show ?case using snoc.IH by (metis row_entry_def)
qed

lemma row_entry_again: "row_entry (entry_row (snd (row_entry r))) = row_entry r"
  by (simp add: row_entry_def entry_row_row_record)

lemma rewrite_loaded:
  "map (\<lambda>kv. row_entry (entry_row (snd kv))) (load_rows rows) = load_rows rows"
proof -
  have "\<And>e. e \<in> set (load_rows rows) \<Longrightarrow> row_entry (entry_row (snd e)) = e"
    using load_rows_normal row_entry_again by metis
  then show ?thesis by (simp add: map_idI)
qed


lemma loaded_entry_fixed:
  assumes "x \<in> set (load_admin_credentials w)"
  shows "row_entry (entry_row (snd x)) = x"
proof -
  have "\<exists>rows. load_admin_credentials w = load_rows rows"
  proof (cases "CREDENTIALS_FILE w")
    case None
    then have "load_admin_credentials w = load_rows []"
      by (simp add: load_admin_credentials_def load_rows_def)
    then show ?thesis ..
  next
    case (Some rows)
    then have "load_admin_credentials w = load_rows rows"
      by (simp add: load_admin_credentials_def)
    then show ?thesis ..
  qed
  then obtain rows where "x \<in> set (load_rows rows)" using assms by auto
  then obtain r where "x = row_entry r" using load_rows_normal by blast
  then show ?thesis by (simp add: row_entry_again)
qed

lemma loaded_distinct: "distinct (map fst (load_admin_credentials w))"
  by (cases "CREDENTIALS_FILE w") (simp_all add: load_admin_credentials_def load_rows_distinct)

lemma map_of_snoc_fresh:
  "k \<notin> fst ` set xs \<Longrightarrow> map_of (xs @ [(k, v)]) k = Some v"
  by (induction xs) auto

lemma map_of_append_Some: "map_of xs k = Some v \<Longrightarrow> map_of (xs @ ys) k = Some v"
  by (simp add: map_add_Some_iff)

lemma lookup_rewritten_update:
  assumes "distinct (map fst al)"
    and "\<And>e. e \<in> set al \<Longrightarrow> g e = e"
    and "g (key, v) = (nk, nv)"
    and "key \<in> fst ` set al \<Longrightarrow> nk = key"
  shows "map_of (rev (map g (AList.update key v al))) nk = Some nv"
  using assms
proof (induction al)
  case Nil
  then show ?case by simp
next
  case (Cons p ps)
  show ?case
  proof (cases "fst p = key")
    case True
    then have nk: "nk = key" using Cons.prems(4) by simp
    have "key \<notin> fst ` set ps" using Cons.prems(1) True by auto
    moreover have "map g ps = ps" using Cons.prems(2) by (simp add: map_idI)
    ultimately have "nk \<notin> fst ` set (rev (map g ps))" using nk by simp
    then have "map_of (rev (map g ps) @ [(nk, nv)]) nk = Some nv"
      by (rule map_of_snoc_fresh)
    then show ?thesis using True Cons.prems(3) by (cases p) simp
  next
    case False
    have "map_of (rev (map g (AList.update key v ps))) nk = Some nv"
      using Cons.prems False by (intro Cons.IH) auto
    then have "map_of (rev (map g (AList.update key v ps)) @ [g p]) nk = Some nv"
      by (rule map_of_append_Some)
    then show ?thesis using False by (cases p) simp
  qed
qed

lemma get_cached_store:
  "get_cached_admin_credential (branchName e) (Some (get_or_empty (clusterId e)))
     (store_admin_credential e w)
   = Some (row_record (entry_row
       \<lparr>branchName = branchName e, clusterId = clusterId e, username = username e,
        password = password e, host = host e, port = port e, database = database e\<rparr>))"
proof -
  let ?v = "\<lparr>branchName = branchName e, clusterId = clusterId e, username = username e,
        password = password e, host = host e, port = port e, database = database e\<rparr>"
  let ?key = "(branchName e, clusterId e)"
  let ?nk = "(branchName e, Some (get_or_empty (clusterId e)))"
  let ?g = "\<lambda>kv. row_entry (entry_row (snd kv))"
  let ?al = "load_admin_credentials w"
  have d: "distinct (map fst ?al)" by (rule loaded_distinct)
  have n: "\<And>x. x \<in> set ?al \<Longrightarrow> ?g x = x" by (rule loaded_entry_fixed)
  have g: "?g (?key, ?v) = (?nk, row_record (entry_row ?v))"
    by (simp add: row_entry_def row_key_def entry_row_def)
  have k: "?key \<in> fst ` set ?al \<Longrightarrow> ?nk = ?key"
  proof -
    assume "?key \<in> fst ` set ?al"
    then obtain x where x: "x \<in> set ?al" "fst x = ?key" by auto
    then have "fst (row_entry (entry_row (snd x))) = ?key" using n by simp
    then have "clusterId e = Some (col_clusterId (entry_row (snd x)))"
      by (simp add: row_entry_def row_key_def)
    then show "?nk = ?key" by (simp add: get_or_empty_def)
  qed
  have "map_of (rev (map ?g (AList.update ?key ?v ?al))) ?nk = Some (row_record (entry_row ?v))"
    using d n g k by (rule lookup_rewritten_update)
  then show ?thesis
    by (simp add: get_cached_admin_credential_def store_admin_credential_def Let_def
        write_admin_credentials_def load_admin_credentials_def map_of_load_rows
        comp_def)
qed


lemma get_cached_delete:
  "get_cached_admin_credential n c (delete_admin_credential n c w) = None"
proof (cases "(n, c) \<in> fst ` set (load_admin_credentials w)")
  case False
  then show ?thesis
    by (simp add: get_cached_admin_credential_def delete_admin_credential_def Let_def
        map_of_eq_None_iff)
next
  case True
  let ?g = "\<lambda>kv. row_entry (entry_row (snd kv))"
  let ?al = "load_admin_credentials w"
  have "set (AList.delete (n, c) ?al) \<subseteq> set ?al"
    by (auto simp: AList.delete_eq)
  then have "\<And>x. x \<in> set (AList.delete (n, c) ?al) \<Longrightarrow> ?g x = x"
    using loaded_entry_fixed by blast
  then have "map ?g (AList.delete (n, c) ?al) = AList.delete (n, c) ?al"
    by (simp add: map_idI)
  moreover have "(n, c) \<notin> fst ` set (rev (AList.delete (n, c) ?al))"
    using delete_notin_dom[of "(n, c)" ?al] by simp
  ultimately have "map_of (rev (map ?g (AList.delete (n, c) ?al))) (n, c) = None"
    by (simp add: map_of_eq_None_iff)
  then show ?thesis using True
    by (simp add: get_cached_admin_credential_def delete_admin_credential_def Let_def
        write_admin_credentials_def load_admin_credentials_def map_of_load_rows comp_def)
qed

section \<open>Lemmas: the broker\<close>

lemma get_branch_manager_Inr:
  "get_branch_manager w = (Inr m, w1) \<Longrightarrow> branch_manager w1 = Some m \<and> trace w1 = trace w"
  by (auto simp: get_branch_manager_def Let_def split: option.splits if_splits)

lemma get_cached_runs:
  "runs w w' \<Longrightarrow> get_cached_admin_credential b c w' = get_cached_admin_credential b c w"
  by (simp add: get_cached_admin_credential_def load_admin_credentials_def runs_outside)

lemma runs_resolve_cluster: "resolve_cluster clus w = (r, w') \<Longrightarrow> runs w w'"
  by (auto simp: resolve_cluster_def io_return_def runs_refl dest: runs_mgr_cluster
      split: if_splits)

lemma resolve_cluster_trace:
  assumes "resolve_cluster clus w1 = (Inr c, w2)" and "branch_manager w1 = Some m"
  shows "if truthy clus \<or> truthy (cluster_id m) then w2 = w1
         else trace w2 = trace w1 @ [Call ListClusters]"
  using assms
  by (auto simp: resolve_cluster_def io_return_def mgr_cluster_def get_default_cluster_def
      io_bind_def mgr_request_def log_def io_raise_def
      split: if_splits option.splits prod.splits sum.splits list.splits)

lemma validate_from_cache:
  "usable cached \<Longrightarrow>
   validate (from_cache cached) w =
     (Inr ((from_cache cached)\<lparr>database :=
        (if truthy (DEFAULT_DATABASE w) \<and> database cached = []
         then get_or_empty (DEFAULT_DATABASE w) else database cached)\<rparr>), w)"
  by (simp add: validate_def usable_def from_cache_def)

section \<open>Lemmas: which errors, which writes\<close>

lemma plumbing_bind:
  assumes "io_bind m f w = (Inl e, w'')"
    and "\<And>w'. m w = (Inl e, w') \<Longrightarrow> plumbing e"
    and "\<And>x w'. m w = (Inr x, w') \<Longrightarrow> f x w' = (Inl e, w'') \<Longrightarrow> plumbing e"
  shows "plumbing e"
  using assms(1)
proof (cases rule: io_bind_cases)
  case (raised e')
  then show ?thesis using assms(2) by auto
next
  case (returned x w')
  then show ?thesis using assms(3) by blast
qed

lemma plumbing_get_branch_manager: "get_branch_manager w = (Inl e, w') \<Longrightarrow> plumbing e"
  by (auto simp: get_branch_manager_def plumbing_def Let_def split: option.splits if_splits)

lemma plumbing_mgr_request: "mgr_request req w = (Inl e, w') \<Longrightarrow> plumbing e"
  by (auto simp: mgr_request_def plumbing_def split: option.splits if_splits)

lemma plumbing_request_return:
  "io_bind (mgr_request req) (\<lambda>b. io_return (g b)) w = (Inl e, w') \<Longrightarrow> plumbing e"
  apply (erule plumbing_bind)
   apply (erule plumbing_mgr_request)
  apply (simp add: io_return_def)
  done

lemma plumbing_get_default_cluster: "get_default_cluster w = (Inl e, w') \<Longrightarrow> plumbing e"
  unfolding get_default_cluster_def
  apply (erule plumbing_bind)
   apply (erule plumbing_mgr_request)
  apply (auto simp: io_raise_def io_return_def plumbing_def split: list.splits)
  done

lemma plumbing_mgr_cluster: "mgr_cluster w = (Inl e, w') \<Longrightarrow> plumbing e"
  unfolding mgr_cluster_def
  by (auto split: option.splits if_splits prod.splits sum.splits
      simp: plumbing_def dest: plumbing_get_default_cluster)

lemma plumbing_resolve_cluster: "resolve_cluster clus w = (Inl e, w') \<Longrightarrow> plumbing e"
  by (auto simp: resolve_cluster_def io_return_def dest: plumbing_mgr_cluster
      split: if_splits)

lemma plumbing_mgr_list_branches: "mgr_list_branches w = (Inl e, w') \<Longrightarrow> plumbing e"
  unfolding mgr_list_branches_def
  apply (erule plumbing_bind)
   apply (erule plumbing_mgr_cluster)
  apply (erule plumbing_request_return)
  done

lemma plumbing_mgr_get_branch: "mgr_get_branch bid w = (Inl e, w') \<Longrightarrow> plumbing e"
  unfolding mgr_get_branch_def
  apply (erule plumbing_bind)
   apply (erule plumbing_mgr_cluster)
  apply (erule plumbing_request_return)
  done

lemma plumbing_create_admin_user_for_branch:
  "create_admin_user_for_branch proj clus bn w = (Inl e, w') \<Longrightarrow> plumbing e"
  unfolding create_admin_user_for_branch_def
  apply (cases "branch_manager w")
   apply (simp add: plumbing_def)
  apply simp
  apply (erule plumbing_bind)
   apply (auto simp: io_return_def dest: plumbing_mgr_cluster split: if_splits)[1]
  apply (auto simp: Let_def io_raise_def plumbing_def[of AdminIdsRequired] split: if_splits
      dest!: plumbing_request_return)
  done

lemma plumbing_resolve_branch_id: "resolve_branch_id n w = (Inl e, w') \<Longrightarrow> plumbing e"
  unfolding resolve_branch_id_def
  apply (erule plumbing_bind)
   apply (erule plumbing_get_branch_manager)
  apply (erule plumbing_bind)
   apply (erule plumbing_mgr_list_branches)
  apply (simp add: io_return_def)
  done

lemma plumbing_wait_loop: "wait_loop n bid d w = (Inl e, w') \<Longrightarrow> plumbing e"
proof (induction n arbitrary: w)
  case 0
  then show ?case by auto
next
  case (Suc n)
  obtain a w1 where g: "mgr_get_branch bid w = (a, w1)" by (cases "mgr_get_branch bid w")
  show ?case
  proof (cases a)
    case (Inl e')
    with Suc.prems g show ?thesis by (auto dest: plumbing_mgr_get_branch)
  next
    case (Inr info)
    with Suc.prems g Suc.IH show ?thesis by (auto split: if_splits)
  qed
qed

lemma plumbing_wait_for_branch_active:
  "wait_for_branch_active bid n d w = (Inl e, w') \<Longrightarrow> plumbing e"
  unfolding wait_for_branch_active_def
  apply (erule plumbing_bind)
   apply (erule plumbing_wait_loop)
  apply (auto simp add: io_return_def io_raise_def plumbing_def split: if_splits)
  done

lemma store_frame:
  "outside (store_admin_credential e w) = outside w"
  "trace (store_admin_credential e w) = trace w"
  "branch_manager (store_admin_credential e w) = branch_manager w"
  by (simp_all add: store_admin_credential_def write_admin_credentials_def Let_def outside_def)

lemma runs_trace: "runs w w' \<Longrightarrow> \<exists>evs. trace w' = trace w @ evs \<and> list_all broker_event evs"
  by (simp add: runs_def)

lemma create_admin_Inr_trace:
  assumes "create_admin_user_for_branch proj clus bn w = (Inr a, w')"
  shows "\<exists>evs. trace w' = trace w @ evs \<and> list_ex is_create_admin evs"
proof -
  obtain m where m: "branch_manager w = Some m"
    using assms by (cases "branch_manager w") (auto simp: create_admin_user_for_branch_def)
  let ?rest = "\<lambda>rc. let rp = py_or proj (project_id m) in
            if \<not> truthy rp \<or> \<not> truthy rc \<or> \<not> truthy bn
            then io_raise AdminIdsRequired
            else io_bind (mgr_request (CreateAdminUser (fmt rp) (fmt rc) (fmt bn)))
                   (\<lambda>b. io_return (admin_of b))"
  have "io_bind (if truthy clus then io_return clus else mgr_cluster) ?rest w = (Inr a, w')"
    using assms m by (simp add: create_admin_user_for_branch_def)
  then show ?thesis
  proof (cases rule: io_bind_cases)
    case (raised e)
    then show ?thesis by simp
  next
    case (returned rc w1)
    have "runs w w1" using returned(1)
      by (auto simp: io_return_def runs_refl dest: runs_mgr_cluster split: if_splits)
    then obtain e1 where e1: "trace w1 = trace w @ e1" using runs_trace by blast
    from returned(2) obtain req where
      "io_bind (mgr_request req) (\<lambda>b. io_return (admin_of b)) w1 = (Inr a, w')"
      "is_create_admin (Call req)"
      by (auto simp: Let_def io_raise_def is_create_admin_def split: if_splits)
    then have "trace w' = trace w1 @ [Call req]" "is_create_admin (Call req)"
      by (auto simp: io_bind_def io_return_def mgr_request_def log_def
          split: option.splits if_splits prod.splits sum.splits)
    then show ?thesis using e1 by auto
  qed
qed

lemma runs_refresh_endpoints: "refresh_endpoints bid ep w = (r, w') \<Longrightarrow> runs w w'"
  unfolding refresh_endpoints_def
  by (auto simp: io_return_def runs_refl split: if_splits elim!: io_bind_cases
      dest: runs_mgr_get_branch)

lemma plumbing_refresh_endpoints: "refresh_endpoints bid ep w = (Inl e, w') \<Longrightarrow> plumbing e"
  unfolding refresh_endpoints_def
  by (auto simp: io_return_def split: if_splits elim!: io_bind_cases
      dest: plumbing_mgr_get_branch)

lemma store_created_eq:
  "store_created b c admin ep w = (r, w') \<Longrightarrow>
     \<exists>entry. r = Inr entry \<and> w' = store_admin_credential entry w
       \<and> branchName entry = b \<and> clusterId entry = c
       \<and> host entry = ep_host ep \<and> port entry = ep_port ep
       \<and> source entry = ''created''
       \<and> database entry = get_or_empty (py_or (DEFAULT_DATABASE w) (Some []))"
  by (auto simp: store_created_def Let_def)

lemma provision_cases:
  assumes "provision b c w = (r, w')"
  shows "(runs w w' \<and> (\<exists>e. r = Inl e \<and> plumbing e))
       \<or> (\<exists>entry w5. r = Inr entry \<and> runs w w5 \<and> w' = store_admin_credential entry w5
            \<and> branchName entry = b \<and> clusterId entry = c \<and> source entry = ''created''
            \<and> database entry = get_or_empty (py_or (DEFAULT_DATABASE w) (Some []))
            \<and> (\<exists>evs. trace w5 = trace w @ evs \<and> list_ex is_create_admin evs))"
proof -
  obtain a1 w1 where s1: "resolve_branch_id b w = (a1, w1)"
    by (cases "resolve_branch_id b w")
  have r1: "runs w w1" using s1 by (rule runs_resolve_branch_id)
  show ?thesis
  proof (cases a1)
    case (Inl e)
    have "provision b c w = (Inl e, w1)" using s1 Inl by (simp add: provision_def io_bind_def)
    then have "r = Inl e" "w' = w1" using assms by simp_all
    moreover have "plumbing e" using s1 Inl plumbing_resolve_branch_id by simp
    ultimately show ?thesis using r1 by simp
  next
    case (Inr found)
    note a1 = this
    show ?thesis
    proof (cases found)
      case None
      have "provision b c w = (Inl (BranchNotFound b), w1)"
        using s1 a1 None by (simp add: provision_def io_bind_def io_raise_def)
      then have "r = Inl (BranchNotFound b)" "w' = w1" using assms by simp_all
      then show ?thesis using r1 by (simp add: plumbing_def)
    next
      case (Some bid)
      note found = this
      obtain a2 w2 where s2: "wait_for_branch_active bid 20 10 w1 = (a2, w2)"
        by (cases "wait_for_branch_active bid 20 10 w1")
      have r2: "runs w w2" using r1 s2 runs_wait_for_branch_active runs_trans by blast
      show ?thesis
      proof (cases a2)
        case (Inl e)
        have "provision b c w = (Inl e, w2)"
          using s1 a1 found s2 Inl by (simp add: provision_def io_bind_def)
        then have "r = Inl e" "w' = w2" using assms by simp_all
        moreover have "plumbing e" using s2 Inl plumbing_wait_for_branch_active by simp
        ultimately show ?thesis using r2 by simp
      next
        case (Inr u)
        note a2 = this
        obtain a3 w3 where s3: "mgr_get_branch bid w2 = (a3, w3)"
          by (cases "mgr_get_branch bid w2")
        have r3: "runs w w3" using r2 s3 runs_mgr_get_branch runs_trans by blast
        show ?thesis
        proof (cases a3)
          case (Inl e)
          have "provision b c w = (Inl e, w3)"
            using s1 a1 found s2 a2 s3 Inl by (simp add: provision_def io_bind_def)
          then have "r = Inl e" "w' = w3" using assms by simp_all
          moreover have "plumbing e" using s3 Inl plumbing_mgr_get_branch by simp
          ultimately show ?thesis using r3 by simp
        next
          case (Inr info)
          note a3 = this
          obtain a4 w4 where s4: "create_admin_user_for_branch None c (Some b) w3 = (a4, w4)"
            by (cases "create_admin_user_for_branch None c (Some b) w3")
          have r4: "runs w w4"
            using r3 s4 runs_create_admin_user_for_branch runs_trans by blast
          show ?thesis
          proof (cases a4)
            case (Inl e)
            have "provision b c w = (Inl e, w4)"
              using s1 a1 found s2 a2 s3 a3 s4 Inl by (simp add: provision_def io_bind_def)
            then have "r = Inl e" "w' = w4" using assms by simp_all
            moreover have "plumbing e"
              using s4 Inl plumbing_create_admin_user_for_branch by simp
            ultimately show ?thesis using r4 by simp
          next
            case (Inr admin)
            note a4 = this
            obtain a5 w5 where s5: "refresh_endpoints bid (public_endpoints info) w4 = (a5, w5)"
              by (cases "refresh_endpoints bid (public_endpoints info) w4")
            have r45: "runs w4 w5" using s5 by (rule runs_refresh_endpoints)
            have r5: "runs w w5" using r4 r45 runs_trans by blast
            show ?thesis
            proof (cases a5)
              case (Inl e)
              have "provision b c w = (Inl e, w5)"
                using s1 a1 found s2 a2 s3 a3 s4 a4 s5 Inl
                by (simp add: provision_def io_bind_def)
              then have "r = Inl e" "w' = w5" using assms by simp_all
              moreover have "plumbing e" using s5 Inl plumbing_refresh_endpoints by simp
              ultimately show ?thesis using r5 by simp
            next
              case (Inr ep)
              obtain e3 where e3: "trace w3 = trace w @ e3" using r3 runs_trace by blast
              obtain e4 where e4: "trace w4 = trace w3 @ e4" "list_ex is_create_admin e4"
                using s4 a4 create_admin_Inr_trace by blast
              obtain e5 where "trace w5 = trace w4 @ e5" using r45 runs_trace by blast
              then have t: "\<exists>evs. trace w5 = trace w @ evs \<and> list_ex is_create_admin evs"
                using e3 e4 by auto
              have d: "DEFAULT_DATABASE w5 = DEFAULT_DATABASE w"
                using r5 by (simp add: runs_outside)
              have "provision b c w = store_created b c admin ep w5"
                using s1 a1 found s2 a2 s3 a3 s4 a4 s5 Inr
                by (simp add: provision_def io_bind_def)
              then have "store_created b c admin ep w5 = (r, w')" using assms by simp
              then obtain entry where "r = Inr entry" "w' = store_admin_credential entry w5"
                "branchName entry = b" "clusterId entry = c" "source entry = ''created''"
                "database entry = get_or_empty (py_or (DEFAULT_DATABASE w5) (Some []))"
                using store_created_eq by blast
              then show ?thesis using r5 t d by auto
            qed
          qed
        qed
      qed
    qed
  qed
qed

lemma lookup_or_provision_cases:
  assumes "lookup_or_provision b c w = (r, w')"
  shows "(\<exists>cached. get_cached_admin_credential b c w = Some cached \<and> usable cached
            \<and> r = Inr (from_cache cached) \<and> w' = w)
       \<or> ((\<forall>cached. get_cached_admin_credential b c w = Some cached \<longrightarrow> \<not> usable cached)
            \<and> provision b c w = (r, w'))"
  using assms by (auto simp: lookup_or_provision_def split: option.splits if_splits)

lemma lookup_or_provision_outside:
  assumes "lookup_or_provision b c w = (r, w')"
  shows "outside w' = outside w"
proof -
  from lookup_or_provision_cases[OF assms] show ?thesis
  proof
    assume "\<exists>cached. get_cached_admin_credential b c w = Some cached \<and> usable cached
            \<and> r = Inr (from_cache cached) \<and> w' = w"
    then show ?thesis by auto
  next
    assume "(\<forall>cached. get_cached_admin_credential b c w = Some cached \<longrightarrow> \<not> usable cached)
            \<and> provision b c w = (r, w')"
    then have "provision b c w = (r, w')" by simp
    from provision_cases[OF this] show ?thesis
      by (auto simp: runs_def store_frame)
  qed
qed

lemma outside_DEFAULT_DATABASE:
  "outside w' = outside w \<Longrightarrow> DEFAULT_DATABASE w' = DEFAULT_DATABASE w"
proof -
  assume "outside w' = outside w"
  then have "DEFAULT_DATABASE (outside w') = DEFAULT_DATABASE (outside w)" by simp
  then show ?thesis by (simp add: outside_def)
qed

lemma ensure_steps:
  assumes "get_branch_manager w = (Inr m, w1)" and "resolve_cluster clus w1 = (Inr c, w2)"
    and "truthy (env_project_id w)"
  shows "ensure_admin_credential b clus w = io_bind (lookup_or_provision b c) validate w2"
    and "runs w w2"
proof -
  show r: "runs w w2"
    using assms(1,2) runs_get_branch_manager runs_resolve_cluster runs_trans by blast
  then have "truthy (env_project_id w2)" using assms(3) by (simp add: runs_outside)
  then show "ensure_admin_credential b clus w = io_bind (lookup_or_provision b c) validate w2"
    using assms(1,2) by (simp add: ensure_admin_credential_def io_bind_def)
qed

lemma ensure_cases:
  assumes "ensure_admin_credential b clus w = (r, w')"
  shows "(runs w w' \<and> (\<exists>e. r = Inl e \<and> plumbing e))
       \<or> (\<exists>m w1 c w2 q w3. get_branch_manager w = (Inr m, w1)
             \<and> resolve_cluster clus w1 = (Inr c, w2) \<and> truthy (env_project_id w)
             \<and> lookup_or_provision b c w2 = (Inr q, w3) \<and> validate q w3 = (r, w'))"
proof -
  obtain a1 w1 where s1: "get_branch_manager w = (a1, w1)" by (cases "get_branch_manager w")
  have r1: "runs w w1" using s1 by (rule runs_get_branch_manager)
  show ?thesis
  proof (cases a1)
    case (Inl e)
    have "ensure_admin_credential b clus w = (Inl e, w1)"
      using s1 Inl by (simp add: ensure_admin_credential_def io_bind_def)
    then have "r = Inl e" "w' = w1" using assms by simp_all
    moreover have "plumbing e" using s1 Inl plumbing_get_branch_manager by simp
    ultimately show ?thesis using r1 by simp
  next
    case (Inr m)
    note a1 = this
    obtain a2 w2 where s2: "resolve_cluster clus w1 = (a2, w2)"
      by (cases "resolve_cluster clus w1")
    have r2: "runs w w2" using r1 s2 runs_resolve_cluster runs_trans by blast
    show ?thesis
    proof (cases a2)
      case (Inl e)
      have "ensure_admin_credential b clus w = (Inl e, w2)"
        using s1 a1 s2 Inl by (simp add: ensure_admin_credential_def io_bind_def)
      then have "r = Inl e" "w' = w2" using assms by simp_all
      moreover have "plumbing e" using s2 Inl plumbing_resolve_cluster by simp
      ultimately show ?thesis using r2 by simp
    next
      case (Inr c)
      note a2 = this
      show ?thesis
      proof (cases "truthy (env_project_id w)")
        case False
        then have "\<not> truthy (env_project_id w2)" using r2 by (simp add: runs_outside)
        then have "ensure_admin_credential b clus w = (Inl MissingProjectId, w2)"
          using s1 a1 s2 a2 by (simp add: ensure_admin_credential_def io_bind_def)
        then have "r = Inl MissingProjectId" "w' = w2" using assms by simp_all
        then show ?thesis using r2 by (simp add: plumbing_def)
      next
        case True
        have e: "io_bind (lookup_or_provision b c) validate w2 = (r, w')"
          using ensure_steps(1)[OF s1[unfolded a1] s2[unfolded a2] True] assms by simp
        then show ?thesis
        proof (cases rule: io_bind_cases)
          case (raised e)
          then have p: "provision b c w2 = (Inl e, w')"
            using lookup_or_provision_cases by blast
          from provision_cases[OF this] have "runs w2 w' \<and> plumbing e" by auto
          then show ?thesis using r2 raised(2) runs_trans by blast
        next
          case (returned q w3)
          then show ?thesis using s1 a1 s2 a2 True by blast
        qed
      qed
    qed
  qed
qed

lemma validate_eq:
  "validate q w =
     (if \<not> truthy (host q) then (Inl MissingHost, w)
      else if \<not> truthy_int (port q) then (Inl MissingPort, w)
      else (Inr (q\<lparr>database := (if truthy (DEFAULT_DATABASE w) \<and> database q = []
                                  then get_or_empty (DEFAULT_DATABASE w) else database q)\<rparr>), w))"
  by (simp add: validate_def)





lemma usable_stored:
  "usable (row_record (entry_row
       \<lparr>branchName = branchName e, clusterId = clusterId e, username = username e,
        password = password e, host = host e, port = port e, database = database e\<rparr>))
   = (truthy (host e) \<and> truthy_int (port e))"
  by (simp add: usable_def row_record_def entry_row_def truthy_def get_or_empty_def
      split: option.splits)

section \<open>Lemmas: polls, refresh, delete\<close>

lemma polls_append: "polls a pre (xs @ ys) = polls a pre xs @ polls a (pre @ xs) ys"
  by (induction xs arbitrary: pre) auto

lemma mgr_cluster_trace:
  assumes "mgr_cluster w = (r, w')"
  shows "api w' = api w \<and> (trace w' = trace w \<or> trace w' = trace w @ [Call ListClusters])"
proof -
  have a: "api w' = api w" using assms runs_mgr_cluster runs_outside(1) by blast
  have "trace w' = trace w \<or> trace w' = trace w @ [Call ListClusters]"
    using assms
    by (auto simp: mgr_cluster_def get_default_cluster_def io_bind_def mgr_request_def
        log_def io_raise_def io_return_def
        split: if_splits option.splits prod.splits sum.splits list.splits)
  then show ?thesis using a by simp
qed

lemma mgr_request_sent:
  assumes "mgr_request req w = (r, w')"
  shows "(w' = w \<and> (\<exists>e. r = Inl e))
       \<or> (trace w' = trace w @ [Call req] \<and> api w' = api w
          \<and> r = (case api w (trace w) req of None \<Rightarrow> Inl TransportError | Some b \<Rightarrow> Inr b))"
  using assms by (auto simp: mgr_request_def log_def split: option.splits if_splits)

lemma mgr_get_branch_polls:
  assumes "mgr_get_branch bid w = (r, w')"
  shows "\<exists>evs. trace w' = trace w @ evs \<and> api w' = api w \<and>
        (case r of
           Inr info \<Rightarrow> \<exists>body. polls (api w) (trace w) evs = [Some body] \<and> info = branch_of body
         | Inl e \<Rightarrow> polls (api w) (trace w) evs = [] \<or> polls (api w) (trace w) evs = [None])"
  using assms unfolding mgr_get_branch_def
proof (cases rule: io_bind_cases)
  case (raised e)
  then have "trace w' = trace w \<or> trace w' = trace w @ [Call ListClusters]" "api w' = api w"
    using mgr_cluster_trace by blast+
  then show ?thesis using raised(2) by auto
next
  case (returned c w1)
  have c: "trace w1 = trace w \<or> trace w1 = trace w @ [Call ListClusters]" "api w1 = api w"
    using returned(1) mgr_cluster_trace by blast+
  then obtain pre where pre: "trace w1 = trace w @ pre" "polls (api w) (trace w) pre = []"
    by auto
  from returned(2) show ?thesis
  proof (cases rule: io_bind_cases)
    case (raised e)
    from mgr_request_sent[OF raised(1)] show ?thesis
    proof
      assume "w' = w1 \<and> (\<exists>e'. Inl e = Inl e')"
      then show ?thesis using pre c raised(2) by auto
    next
      assume s: "trace w' = trace w1 @ [Call (GetBranch (fmt c) bid)] \<and> api w' = api w1
          \<and> Inl e = (case api w1 (trace w1) (GetBranch (fmt c) bid) of
                       None \<Rightarrow> Inl TransportError | Some b \<Rightarrow> Inr b)"
      then have n: "api w (trace w @ pre) (GetBranch (fmt c) bid) = None"
        using c pre by (auto split: option.splits)
      have "trace w' = trace w @ (pre @ [Call (GetBranch (fmt c) bid)])" using s pre by simp
      moreover have "polls (api w) (trace w) (pre @ [Call (GetBranch (fmt c) bid)]) = [None]"
        using pre n by (simp add: polls_append)
      ultimately show ?thesis using s c raised(2) by auto
    qed
  next
    case (returned body w2)
    then have w2: "w2 = w'" "r = Inr (branch_of body)" by (auto simp: io_return_def)
    from mgr_request_sent[OF returned(1)] have
      s: "trace w2 = trace w1 @ [Call (GetBranch (fmt c) bid)]" "api w2 = api w1"
         "api w1 (trace w1) (GetBranch (fmt c) bid) = Some body"
      by (auto split: option.splits)
    have "trace w' = trace w @ (pre @ [Call (GetBranch (fmt c) bid)])" using s pre w2 by simp
    moreover have "polls (api w) (trace w) (pre @ [Call (GetBranch (fmt c) bid)]) = [Some body]"
      using pre s c by (simp add: polls_append)
    ultimately show ?thesis using s c w2 by auto
  qed
qed

lemma wait_loop_polls:
  "wait_loop n bid d w = (r, w') \<Longrightarrow>
   \<exists>evs. trace w' = trace w @ evs \<and>
     length (polls (api w) (trace w) evs) \<le> n
     \<and> (\<forall>p \<in> set (butlast (polls (api w) (trace w) evs)). answered_not_active p)
     \<and> (case r of
          Inr True \<Rightarrow> polls (api w) (trace w) evs \<noteq> []
                       \<and> active_reply (last (polls (api w) (trace w) evs))
        | Inr False \<Rightarrow> length (polls (api w) (trace w) evs) = n
                       \<and> (\<forall>p \<in> set (polls (api w) (trace w) evs). answered_not_active p)
        | Inl e \<Rightarrow> (length (polls (api w) (trace w) evs) < n
                      \<or> None \<in> set (polls (api w) (trace w) evs))
                    \<and> (\<forall>p \<in> set (polls (api w) (trace w) evs). \<not> active_reply p))"
proof (induction n arbitrary: w)
  case 0
  then show ?case by auto
next
  case (Suc n)
  obtain a w1 where g: "mgr_get_branch bid w = (a, w1)" by (cases "mgr_get_branch bid w")
  from mgr_get_branch_polls[OF g] obtain evs1 where
    e1: "trace w1 = trace w @ evs1" "api w1 = api w"
      "case a of
           Inr info \<Rightarrow> \<exists>body. polls (api w) (trace w) evs1 = [Some body] \<and> info = branch_of body
         | Inl e \<Rightarrow> polls (api w) (trace w) evs1 = [] \<or> polls (api w) (trace w) evs1 = [None]"
    by blast
  show ?case
  proof (cases a)
    case (Inl e)
    then have "r = Inl e" "w' = w1" using Suc.prems g by simp_all
    moreover have "polls (api w) (trace w) evs1 = [] \<or> polls (api w) (trace w) evs1 = [None]"
      using e1(3) Inl by simp
    ultimately show ?thesis using e1(1) by (intro exI[of _ evs1]) (auto simp: active_reply_def)
  next
    case (Inr info)
    then obtain body where b: "polls (api w) (trace w) evs1 = [Some body]" "info = branch_of body"
      using e1(3) by auto
    show ?thesis
    proof (cases "state info = Some ''ACTIVE''")
      case True
      then have "r = Inr True" "w' = w1" using Suc.prems g Inr by simp_all
      then show ?thesis using e1(1) b True
        by (intro exI[of _ evs1]) (auto simp: active_reply_def)
    next
      case False
      let ?w1 = "log (Sleep d) w1"
      have rec: "wait_loop n bid d ?w1 = (r, w')" using Suc.prems g Inr False by simp
      have t1: "trace ?w1 = trace w @ (evs1 @ [Sleep d])" "api ?w1 = api w"
        using e1 by (simp_all add: log_def)
      from Suc.IH[OF rec] obtain evs2 where
        e2: "trace w' = trace ?w1 @ evs2"
          "length (polls (api ?w1) (trace ?w1) evs2) \<le> n"
          "\<forall>p \<in> set (butlast (polls (api ?w1) (trace ?w1) evs2)). answered_not_active p"
          "case r of
            Inr True \<Rightarrow> polls (api ?w1) (trace ?w1) evs2 \<noteq> []
                       \<and> active_reply (last (polls (api ?w1) (trace ?w1) evs2))
          | Inr False \<Rightarrow> length (polls (api ?w1) (trace ?w1) evs2) = n
                       \<and> (\<forall>p \<in> set (polls (api ?w1) (trace ?w1) evs2). answered_not_active p)
          | Inl e \<Rightarrow> (length (polls (api ?w1) (trace ?w1) evs2) < n
                      \<or> None \<in> set (polls (api ?w1) (trace ?w1) evs2))
                    \<and> (\<forall>p \<in> set (polls (api ?w1) (trace ?w1) evs2). \<not> active_reply p)"
        by blast
      define ps2 where "ps2 = polls (api ?w1) (trace ?w1) evs2"
      have na: "answered_not_active (Some body)" "\<not> active_reply (Some body)"
        using False b by (simp_all add: answered_not_active_def active_reply_def)
      have tr: "trace w' = trace w @ (evs1 @ [Sleep d] @ evs2)" using e2(1) t1 by simp
      have ps: "polls (api w) (trace w) (evs1 @ [Sleep d] @ evs2) = Some body # ps2"
        using b t1 by (simp add: polls_append ps2_def)
      have 1: "length (Some body # ps2) \<le> Suc n" using e2(2) by (simp add: ps2_def)
      have 2: "\<forall>p \<in> set (butlast (Some body # ps2)). answered_not_active p"
        using e2(3) na by (auto simp: ps2_def)
      have 3: "case r of
            Inr True \<Rightarrow> Some body # ps2 \<noteq> [] \<and> active_reply (last (Some body # ps2))
          | Inr False \<Rightarrow> length (Some body # ps2) = Suc n
                       \<and> (\<forall>p \<in> set (Some body # ps2). answered_not_active p)
          | Inl e \<Rightarrow> (length (Some body # ps2) < Suc n \<or> None \<in> set (Some body # ps2))
                    \<and> (\<forall>p \<in> set (Some body # ps2). \<not> active_reply p)"
        using e2(4) na by (auto simp: ps2_def split: sum.splits bool.splits)
      show ?thesis
        apply (rule exI[of _ "evs1 @ [Sleep d] @ evs2"])
        apply (simp only: ps)
        using tr 1 2 3 apply blast
        done
    qed
  qed
qed


lemma delete_frame:
  "outside (delete_admin_credential n c w) = outside w"
  "trace (delete_admin_credential n c w) = trace w"
  "branch_manager (delete_admin_credential n c w) = branch_manager w"
  by (simp_all add: delete_admin_credential_def write_admin_credentials_def Let_def outside_def)

lemma provision_source: "provision b c w = (Inr q, w') \<Longrightarrow> source q = ''created''"
  using provision_cases by fastforce

lemma validate_source: "validate q w = (Inr p, w') \<Longrightarrow> source p = source q"
  by (auto simp: validate_def split: if_splits)

lemma miss_is_created:
  assumes "ensure_admin_credential b clus w = (Inr p, w')" and "truthy clus"
    and "get_cached_admin_credential b clus w = None"
  shows "source p = ''created''"
proof -
  from ensure_cases[OF assms(1)] obtain m w1 c w2 q w3 where
    s: "get_branch_manager w = (Inr m, w1)" "resolve_cluster clus w1 = (Inr c, w2)"
       "truthy (env_project_id w)" "lookup_or_provision b c w2 = (Inr q, w3)"
       "validate q w3 = (Inr p, w')"
    by auto
  have c: "c = clus" "w2 = w1" using s(2) assms(2) by (simp_all add: resolve_cluster_def io_return_def)
  have "runs w w2" using ensure_steps(2)[OF s(1,2,3)] .
  then have "get_cached_admin_credential b clus w2 = None"
    using assms(3) by (simp add: get_cached_runs)
  then have "provision b c w2 = (Inr q, w3)"
    using lookup_or_provision_cases[OF s(4)] c by auto
  then show ?thesis using provision_source validate_source[OF s(5)] by simp
qed

section \<open>Lemmas: the second call\<close>

lemma get_cached_normal:
  assumes "get_cached_admin_credential b c w = Some r"
  shows "branchName r = b \<and> clusterId r = c"
proof -
  have "((b, c), r) \<in> set (load_admin_credentials w)"
    using assms by (simp add: get_cached_admin_credential_def map_of_SomeD)
  then have "row_entry (entry_row r) = ((b, c), r)" using loaded_entry_fixed by fastforce
  then have "row_key (entry_row r) = (b, c)" "row_record (entry_row r) = r"
    by (simp_all add: row_entry_def)
  then have "(branchName r, Some (get_or_empty (clusterId r))) = (b, c)"
    "clusterId r = Some (get_or_empty (clusterId r))"
    by (simp_all add: row_key_def entry_row_def row_record_def)
      (metis cred.select_convs(2))
  then show ?thesis by simp
qed

lemma mgr_cluster_memo:
  assumes "mgr_cluster w = (Inr c, w')" and "truthy c"
  shows "\<exists>m'. branch_manager w' = Some m' \<and> cluster_id m' = c"
  using assms
  by (auto simp: mgr_cluster_def split: option.splits if_splits prod.splits sum.splits)

lemma mgr_cluster_idem:
  "branch_manager w = Some m \<Longrightarrow> truthy (cluster_id m) \<Longrightarrow> mgr_cluster w = (Inr (cluster_id m), w)"
  by (simp add: mgr_cluster_def)

lemma resolve_cluster_again:
  assumes "resolve_cluster clus w1 = (Inr c, w2)" and "truthy c"
    and "branch_manager w1 \<noteq> None"
  shows "\<exists>m2. branch_manager w2 = Some m2 \<and> resolve_cluster clus w2 = (Inr c, w2)
          \<and> (\<not> truthy clus \<longrightarrow> truthy (cluster_id m2))"
proof (cases "truthy clus")
  case True
  then have "c = clus" "w2 = w1" using assms(1) by (simp_all add: resolve_cluster_def io_return_def)
  then show ?thesis using True assms(3) by (auto simp: resolve_cluster_def io_return_def)
next
  case False
  then have "mgr_cluster w1 = (Inr c, w2)" using assms(1) by (simp add: resolve_cluster_def)
  from mgr_cluster_memo[OF this assms(2)] obtain m2 where
    m2: "branch_manager w2 = Some m2" "cluster_id m2 = c" by blast
  then have "mgr_cluster w2 = (Inr c, w2)" using mgr_cluster_idem assms(2) by fastforce
  then show ?thesis using False m2 assms(2) by (simp add: resolve_cluster_def)
qed

lemma resolve_cluster_kept:
  assumes "resolve_cluster clus w = (Inr c, w)" and "branch_manager w = Some m"
    and "\<not> truthy clus \<longrightarrow> truthy (cluster_id m)"
    and "branch_manager w' = Some m"
  shows "resolve_cluster clus w' = (Inr c, w')"
proof (cases "truthy clus")
  case True
  then show ?thesis using assms(1) by (simp add: resolve_cluster_def io_return_def)
next
  case False
  then have t: "truthy (cluster_id m)" using assms(3) by simp
  then have "mgr_cluster w = (Inr (cluster_id m), w)" using assms(2) by (rule mgr_cluster_idem[rotated])
  then have "c = cluster_id m" using assms(1) False by (simp add: resolve_cluster_def)
  then show ?thesis using False t assms(4) mgr_cluster_idem by (simp add: resolve_cluster_def)
qed

lemma from_cache_stored:
  assumes "truthy (host q)" and "truthy (clusterId q)"
  shows "from_cache (row_record (entry_row
       \<lparr>branchName = branchName q, clusterId = clusterId q, username = username q,
        password = password q, host = host q, port = port q, database = database q\<rparr>))
     = q\<lparr>source := ''cache''\<rparr>"
proof -
  obtain h where h: "host q = Some h" using assms(1) by (cases "host q") (auto simp: truthy_def)
  obtain s where s: "clusterId q = Some s"
    using assms(2) by (cases "clusterId q") (auto simp: truthy_def)
  show ?thesis using h s
    by (simp add: from_cache_def row_record_def entry_row_def get_or_empty_def)
qed

lemma outside_env_project_id:
  assumes "outside w' = outside w"
  shows "env_project_id w' = env_project_id w"
proof -
  have "env_project_id (outside w') = env_project_id (outside w)" using assms by simp
  then show ?thesis by (simp add: outside_def)
qed

lemma world_eqI:
  "outside w = outside w' \<Longrightarrow> branch_manager w = branch_manager w'
   \<Longrightarrow> CREDENTIALS_FILE w = CREDENTIALS_FILE w' \<Longrightarrow> trace w = trace w' \<Longrightarrow> w = w'"
  by (cases w, cases w') (simp add: outside_def)

lemma ensure_outside:
  assumes "ensure_admin_credential b clus w = (r, w')"
  shows "outside w' = outside w"
proof -
  from ensure_cases[OF assms] show ?thesis
  proof
    assume "runs w w' \<and> (\<exists>e. r = Inl e \<and> plumbing e)"
    then show ?thesis by (simp add: runs_def)
  next
    assume "\<exists>m w1 c w2 q w3. get_branch_manager w = (Inr m, w1)
             \<and> resolve_cluster clus w1 = (Inr c, w2) \<and> truthy (env_project_id w)
             \<and> lookup_or_provision b c w2 = (Inr q, w3) \<and> validate q w3 = (r, w')"
    then obtain m w1 c w2 q w3 where
      s: "get_branch_manager w = (Inr m, w1)" "resolve_cluster clus w1 = (Inr c, w2)"
       "truthy (env_project_id w)" "lookup_or_provision b c w2 = (Inr q, w3)"
       "validate q w3 = (r, w')"
      by blast
    have "w' = w3" using s(5) by (auto simp: validate_def split: if_splits)
    moreover have "outside w3 = outside w2" using s(4) by (rule lookup_or_provision_outside)
    moreover have "outside w2 = outside w" using ensure_steps(2)[OF s(1,2,3)] by (simp add: runs_def)
    ultimately show ?thesis by simp
  qed
qed

section \<open>Lemmas: before the cache lookup\<close>







section \<open>Lemmas: what a call writes\<close>

lemma failed_call_cache:
  assumes "ensure_admin_credential b clus w = (Inl e, w')"
  shows "if e = MissingHost \<or> e = MissingPort
         then (\<exists>c r. get_cached_admin_credential b (Some c) w' = Some r \<and> \<not> usable r)
              \<and> (\<exists>evs. trace w' = trace w @ evs \<and> list_ex is_create_admin evs)
         else CREDENTIALS_FILE w' = CREDENTIALS_FILE w"
proof -
  from ensure_cases[OF assms] show ?thesis
  proof
    assume "runs w w' \<and> (\<exists>e'. Inl e = Inl e' \<and> plumbing e')"
    then show ?thesis by (auto simp: plumbing_def runs_def)
  next
    assume "\<exists>m w1 c w2 q w3. get_branch_manager w = (Inr m, w1)
             \<and> resolve_cluster clus w1 = (Inr c, w2) \<and> truthy (env_project_id w)
             \<and> lookup_or_provision b c w2 = (Inr q, w3) \<and> validate q w3 = (Inl e, w')"
    then obtain m w1 c w2 q w3 where
      s: "get_branch_manager w = (Inr m, w1)" "resolve_cluster clus w1 = (Inr c, w2)"
       "truthy (env_project_id w)" "lookup_or_provision b c w2 = (Inr q, w3)"
       "validate q w3 = (Inl e, w')"
      by blast
    have v: "w' = w3" "e = MissingHost \<or> e = MissingPort"
      "\<not> (truthy (host q) \<and> truthy_int (port q))"
      using s(5) by (auto simp: validate_def split: if_splits)
    have "\<not> (\<exists>cached. usable cached \<and> q = from_cache cached)"
      using v(3) by (auto simp: usable_def from_cache_def)
    then have p: "provision b c w2 = (Inr q, w3)"
      using lookup_or_provision_cases[OF s(4)] by auto
    from provision_cases[OF p] obtain w5 where
      w5: "runs w2 w5" "w3 = store_admin_credential q w5" "branchName q = b"
        "\<exists>evs. trace w5 = trace w2 @ evs \<and> list_ex is_create_admin evs"
      by auto
    have "get_cached_admin_credential b (Some (get_or_empty (clusterId q))) w3
          = Some (row_record (entry_row
       \<lparr>branchName = branchName q, clusterId = clusterId q, username = username q,
        password = password q, host = host q, port = port q, database = database q\<rparr>))"
      using get_cached_store[of q w5] w5(2,3) by simp
    moreover have "\<not> usable (row_record (entry_row
       \<lparr>branchName = branchName q, clusterId = clusterId q, username = username q,
        password = password q, host = host q, port = port q, database = database q\<rparr>))"
      using v(3) by (simp add: usable_stored)
    ultimately have 1: "\<exists>c r. get_cached_admin_credential b (Some c) w' = Some r \<and> \<not> usable r"
      using v(1) by blast
    obtain e1 where e1: "trace w2 = trace w @ e1"
      using ensure_steps(2)[OF s(1,2,3)] runs_trace by blast
    obtain e2 where e2: "trace w5 = trace w2 @ e2" "list_ex is_create_admin e2"
      using w5(4) by blast
    have "trace w' = trace w @ (e1 @ e2) \<and> list_ex is_create_admin (e1 @ e2)"
      using e1 e2 v(1) w5(2) by (simp add: store_frame)
    then have 2: "\<exists>evs. trace w' = trace w @ evs \<and> list_ex is_create_admin evs" by blast
    show ?thesis using 1 2 v(2) by auto
  qed
qed

lemma write_needs_admin:
  assumes "ensure_admin_credential b clus w = (r, w')"
    and "CREDENTIALS_FILE w' \<noteq> CREDENTIALS_FILE w"
  shows "\<exists>evs. trace w' = trace w @ evs \<and> list_ex is_create_admin evs"
proof -
  from ensure_cases[OF assms(1)] show ?thesis
  proof
    assume "runs w w' \<and> (\<exists>e. r = Inl e \<and> plumbing e)"
    then show ?thesis using assms(2) by (simp add: runs_def)
  next
    assume "\<exists>m w1 c w2 q w3. get_branch_manager w = (Inr m, w1)
             \<and> resolve_cluster clus w1 = (Inr c, w2) \<and> truthy (env_project_id w)
             \<and> lookup_or_provision b c w2 = (Inr q, w3) \<and> validate q w3 = (r, w')"
    then obtain m w1 c w2 q w3 where
      s: "get_branch_manager w = (Inr m, w1)" "resolve_cluster clus w1 = (Inr c, w2)"
       "truthy (env_project_id w)" "lookup_or_provision b c w2 = (Inr q, w3)"
       "validate q w3 = (r, w')"
      by blast
    have w': "w' = w3" using s(5) by (auto simp: validate_def split: if_splits)
    have r2: "runs w w2" using ensure_steps(2)[OF s(1,2,3)] .
    have "w3 \<noteq> w2" using assms(2) w' r2 by (auto simp: runs_def)
    then have "provision b c w2 = (Inr q, w3)"
      using lookup_or_provision_cases[OF s(4)] by auto
    from provision_cases[OF this] obtain w5 e2 where
      w5: "w3 = store_admin_credential q w5" "trace w5 = trace w2 @ e2"
        "list_ex is_create_admin e2"
      by auto
    obtain e1 where e1: "trace w2 = trace w @ e1" using r2 runs_trace by blast
    have "trace w' = trace w @ (e1 @ e2) \<and> list_ex is_create_admin (e1 @ e2)"
      using e1 w5 w' by (simp add: store_frame)
    then show ?thesis by blast
  qed
qed

section \<open>The claims\<close>

text \<open>
  \<^bold>\<open>C1\<close>, as stated, fails: with a usable credential in the cache, the call raises when
  no project id is configured; and with one configured, it fetches the cluster list
  when no cluster id is known and returns the record with the database filled in.
\<close>

theorem cache_hit_counterexample:
  "get_cached_admin_credential ''demo-branch'' (Some ''cluster-1'') cached_world
     = Some cached_record
   \<and> usable cached_record
   \<and> fst (ensure_admin_credential ''demo-branch'' (Some ''cluster-1'')
            (cached_world\<lparr>env_project_id := None\<rparr>)) = Inl MissingProjectId
   \<and> fst (ensure_admin_credential ''demo-branch'' None cached_world)
       = Inr ((from_cache cached_record)\<lparr>database := ''test''\<rparr>)
   \<and> trace cached_world = []
   \<and> trace (snd (ensure_admin_credential ''demo-branch'' None cached_world))
       = [Call ListClusters]"
  by code_simp

text \<open>
  \<^bold>\<open>C1, amended.\<close> When the project id is set and the manager and the effective cluster
  id are obtained, a cache entry for (branch name, cluster id) with a non-empty host
  and port is returned tagged \<^verbatim>\<open>cache\<close>, with an empty database filled from the default
  database when one is configured. The cache file is not written, and no request is
  sent but the one cluster list, fetched when neither the argument nor the manager
  holds a cluster id.
\<close>

theorem cache_hit_returns_stored_record:
  assumes "get_branch_manager w = (Inr m, w1)"
      and "resolve_cluster clus w1 = (Inr c, w2)"
      and "truthy (env_project_id w)"
      and "get_cached_admin_credential b c w = Some cached"
      and "usable cached"
  shows "ensure_admin_credential b clus w =
           (Inr ((from_cache cached)\<lparr>database :=
              (if truthy (DEFAULT_DATABASE w) \<and> database cached = []
               then get_or_empty (DEFAULT_DATABASE w) else database cached)\<rparr>), w2)
         \<and> CREDENTIALS_FILE w2 = CREDENTIALS_FILE w
         \<and> (if truthy clus \<or> truthy (cluster_id m) then trace w2 = trace w
            else trace w2 = trace w @ [Call ListClusters])"
proof -
  have r: "runs w w2"
    using assms(1,2) runs_get_branch_manager runs_resolve_cluster runs_trans by blast
  have p: "truthy (env_project_id w2)" using r assms(3) by (simp add: runs_outside)
  have g: "get_cached_admin_credential b c w2 = Some cached"
    using r assms(4) by (simp add: get_cached_runs)
  have d: "DEFAULT_DATABASE w2 = DEFAULT_DATABASE w" using r by (simp add: runs_outside)
  have "ensure_admin_credential b clus w = validate (from_cache cached) w2"
    using assms(1,2,5) p g by (simp add: ensure_admin_credential_def io_bind_def lookup_or_provision_def)
  then have 1: "ensure_admin_credential b clus w =
           (Inr ((from_cache cached)\<lparr>database :=
              (if truthy (DEFAULT_DATABASE w) \<and> database cached = []
               then get_or_empty (DEFAULT_DATABASE w) else database cached)\<rparr>), w2)"
    using assms(5) d by (simp add: validate_from_cache)
  have 2: "CREDENTIALS_FILE w2 = CREDENTIALS_FILE w" using r by (simp add: runs_outside)
  have m: "branch_manager w1 = Some m" "trace w1 = trace w"
    using assms(1) get_branch_manager_Inr by auto
  have 3: "if truthy clus \<or> truthy (cluster_id m) then trace w2 = trace w
            else trace w2 = trace w @ [Call ListClusters]"
    using resolve_cluster_trace[OF assms(2) m(1)] m(2) by (auto split: if_splits)
  show ?thesis using 1 2 3 by blast
qed

theorem cache_hit_returns_stored_record_witness:
  "ensure_admin_credential ''demo-branch'' None cached_world =
     (Inr ((from_cache cached_record)\<lparr>database := ''test''\<rparr>),
      snd (resolve_cluster None (snd (get_branch_manager cached_world))))
   \<and> trace (snd (resolve_cluster None (snd (get_branch_manager cached_world))))
       = [Call ListClusters]"
proof -
  let ?w1 = "snd (get_branch_manager cached_world)"
  let ?w2 = "snd (resolve_cluster None ?w1)"
  have "fst (get_branch_manager cached_world) = Inr demo_manager" by code_simp
  then have h1: "get_branch_manager cached_world = (Inr demo_manager, ?w1)" by (rule pair_fstI)
  have "fst (resolve_cluster None ?w1) = Inr (Some ''cluster-1'')" by code_simp
  then have h2: "resolve_cluster None ?w1 = (Inr (Some ''cluster-1''), ?w2)" by (rule pair_fstI)
  have h3: "truthy (env_project_id cached_world)" by code_simp
  have h4: "get_cached_admin_credential ''demo-branch'' (Some ''cluster-1'') cached_world
            = Some cached_record" by code_simp
  have h5: "usable cached_record" by code_simp
  have d: "truthy (DEFAULT_DATABASE cached_world)" "database cached_record = []"
    "get_or_empty (DEFAULT_DATABASE cached_world) = ''test''"
    "\<not> truthy None" "\<not> truthy (cluster_id demo_manager)" "trace cached_world = []"
    by code_simp+
  show ?thesis
    using cache_hit_returns_stored_record [OF h1 h2 h3 h4 h5] d by simp
qed

text \<open>
  \<^bold>\<open>C2\<close>, as stated, fails: the first call writes the cache before it checks the record.
  When the endpoints never appear it writes a row without host and port and raises; the
  second call finds that row unusable and creates a second admin user.
\<close>

theorem second_call_counterexample:
  "fst (ensure_admin_credential ''demo-branch'' None bare_world) = Inl MissingHost
   \<and> snd (ensure_admin_credential ''demo-branch'' None bare_world) = bare_world_after
   \<and> CREDENTIALS_FILE bare_world_after
       = Some [\<lparr>col_branchName = ''demo-branch'', col_clusterId = ''cluster-1'',
                 col_username = ''u1'', col_password = ''p1'', col_host = [],
                 col_port = None, col_database = []\<rparr>]
   \<and> filter is_create_admin (trace bare_world_after)
       = [Call (CreateAdminUser ''proj'' ''cluster-1'' ''demo-branch'')]
   \<and> filter is_create_admin
        (trace (snd (ensure_admin_credential ''demo-branch'' None bare_world_after)))
       = [Call (CreateAdminUser ''proj'' ''cluster-1'' ''demo-branch''),
          Call (CreateAdminUser ''proj'' ''cluster-1'' ''demo-branch'')]"
proof -
  let ?w' = "snd (ensure_admin_credential ''demo-branch'' None bare_world)"
  have 1: "fst (ensure_admin_credential ''demo-branch'' None bare_world) = Inl MissingHost"
    by code_simp
  have "ensure_admin_credential ''demo-branch'' None bare_world
          = (fst (ensure_admin_credential ''demo-branch'' None bare_world), ?w')" by simp
  then have "outside ?w' = outside bare_world" by (rule ensure_outside)
  moreover have "outside bare_world_after = outside bare_world"
    by (simp add: bare_world_after_def outside_def)
  ultimately have o: "outside ?w' = outside bare_world_after" by simp
  have m: "branch_manager ?w' = branch_manager bare_world_after" by code_simp
  have f: "CREDENTIALS_FILE ?w' = CREDENTIALS_FILE bare_world_after" by code_simp
  have t: "trace ?w' = trace bare_world_after" by code_simp
  have 2: "?w' = bare_world_after" using o m f t by (rule world_eqI)
  have 3: "CREDENTIALS_FILE bare_world_after
       = Some [\<lparr>col_branchName = ''demo-branch'', col_clusterId = ''cluster-1'',
                 col_username = ''u1'', col_password = ''p1'', col_host = [],
                 col_port = None, col_database = []\<rparr>]" by code_simp
  have 4: "filter is_create_admin (trace bare_world_after)
       = [Call (CreateAdminUser ''proj'' ''cluster-1'' ''demo-branch'')]" by code_simp
  have 5: "filter is_create_admin
        (trace (snd (ensure_admin_credential ''demo-branch'' None bare_world_after)))
       = [Call (CreateAdminUser ''proj'' ''cluster-1'' ''demo-branch''),
          Call (CreateAdminUser ''proj'' ''cluster-1'' ''demo-branch'')]" by code_simp
  show ?thesis using 1 2 3 4 5 by simp
qed

text \<open>
  \<^bold>\<open>C2, amended.\<close> When the first call returns a record (so that what it cached, or found
  cached, has a host and a port) under a non-empty cluster id, a second call with the
  same arguments returns the same record tagged \<^verbatim>\<open>cache\<close> and changes nothing: it sends
  no request at all, so no second admin user is created.
\<close>

theorem second_call_hits_cache:
  assumes "ensure_admin_credential b clus w = (Inr p, w')" and "truthy (clusterId p)"
  shows "ensure_admin_credential b clus w' = (Inr (p\<lparr>source := ''cache''\<rparr>), w')"
proof -
  from ensure_cases[OF assms(1)] obtain m w1 c w2 q w3 where
    s: "get_branch_manager w = (Inr m, w1)" "resolve_cluster clus w1 = (Inr c, w2)"
       "truthy (env_project_id w)" "lookup_or_provision b c w2 = (Inr q, w3)"
       "validate q w3 = (Inr p, w')"
    by auto
  have v: "w' = w3" "truthy (host q)" "truthy_int (port q)"
    "p = q\<lparr>database := (if truthy (DEFAULT_DATABASE w3) \<and> database q = []
                         then get_or_empty (DEFAULT_DATABASE w3) else database q)\<rparr>"
    using s(5) by (auto simp: validate_eq split: if_splits)
  have cq: "clusterId q = clusterId p" using v(4) by simp
  then have tq: "truthy (clusterId q)" using assms(2) by simp
  have r2: "runs w w2" using ensure_steps(2)[OF s(1,2,3)] .
  have o3: "outside w3 = outside w2" using s(4) by (rule lookup_or_provision_outside)
  have m1: "branch_manager w1 \<noteq> None" using s(1) get_branch_manager_Inr by fastforce
  have look: "\<exists>cached. get_cached_admin_credential b c w3 = Some cached \<and> usable cached
                \<and> from_cache cached = q\<lparr>source := ''cache''\<rparr>
                \<and> branch_manager w3 \<noteq> None \<and> resolve_cluster clus w3 = (Inr c, w3)"
    using lookup_or_provision_cases[OF s(4)]
  proof
    assume "\<exists>cached. get_cached_admin_credential b c w2 = Some cached \<and> usable cached
            \<and> Inr q = Inr (from_cache cached) \<and> w3 = w2"
    then obtain cached where
      c: "get_cached_admin_credential b c w2 = Some cached" "usable cached"
         "q = from_cache cached" "w3 = w2" by auto
    have "clusterId cached = c" using get_cached_normal[OF c(1)] by simp
    then have "truthy c" using tq c(3) by (simp add: from_cache_def)
    from resolve_cluster_again[OF s(2) this m1]
    have "branch_manager w2 \<noteq> None" "resolve_cluster clus w2 = (Inr c, w2)" by auto
    then show ?thesis using c by (auto simp: from_cache_def)
  next
    assume "(\<forall>cached. get_cached_admin_credential b c w2 = Some cached \<longrightarrow> \<not> usable cached)
            \<and> provision b c w2 = (Inr q, w3)"
    then have "provision b c w2 = (Inr q, w3)" by simp
    from provision_cases[OF this] obtain w5 where
      w5: "runs w2 w5" "w3 = store_admin_credential q w5" "branchName q = b" "clusterId q = c"
      by auto
    have tc: "truthy c" using tq w5(4) by simp
    then obtain sc where sc: "c = Some sc" by (cases c) (auto simp: truthy_def)
    obtain m2 where m2: "branch_manager w2 = Some m2"
      "resolve_cluster clus w2 = (Inr c, w2)"
      "\<not> truthy clus \<longrightarrow> truthy (cluster_id m2)"
      using resolve_cluster_again[OF s(2) tc m1] by blast
    let ?stored = "row_record (entry_row
       \<lparr>branchName = branchName q, clusterId = clusterId q, username = username q,
        password = password q, host = host q, port = port q, database = database q\<rparr>)"
    have 1: "get_cached_admin_credential b c w3 = Some ?stored"
      using get_cached_store[of q w5] w5(2,3,4) sc by (simp add: get_or_empty_def)
    have 2: "usable ?stored" using v(2,3) by (simp add: usable_stored)
    have 3: "from_cache ?stored = q\<lparr>source := ''cache''\<rparr>"
      using from_cache_stored[OF v(2) tq] .
    have 4: "branch_manager w3 \<noteq> None"
      using w5(1,2) m2(1) by (auto simp: runs_def store_frame)
    have 5: "resolve_cluster clus w3 = (Inr c, w3)"
    proof (cases "truthy clus")
      case True
      then have "c = clus" using s(2) by (simp add: resolve_cluster_def io_return_def)
      then show ?thesis using True by (simp add: resolve_cluster_def io_return_def)
    next
      case False
      then have "truthy (cluster_id m2)" using m2(3) by simp
      then have "branch_manager w5 = Some m2" using w5(1) m2(1) by (auto simp: runs_def)
      then have "branch_manager w3 = Some m2" using w5(2) by (simp add: store_frame)
      then show ?thesis using resolve_cluster_kept[OF m2(2) m2(1) m2(3)] by simp
    qed
    show ?thesis using 1 2 3 4 5 by blast
  qed
  then obtain cached m3 where
    c: "get_cached_admin_credential b c w3 = Some cached" "usable cached"
       "from_cache cached = q\<lparr>source := ''cache''\<rparr>"
       "branch_manager w3 = Some m3" "resolve_cluster clus w3 = (Inr c, w3)"
    by auto
  have g: "get_branch_manager w3 = (Inr m3, w3)" using c(4) by (simp add: get_branch_manager_def)
  have "env_project_id w3 = env_project_id w2" using o3 by (rule outside_env_project_id)
  moreover have "env_project_id w2 = env_project_id w" using r2 by (rule runs_outside(2))
  ultimately have pj: "truthy (env_project_id w3)" using s(3) by simp
  have "ensure_admin_credential b clus w3 = io_bind (lookup_or_provision b c) validate w3"
    using ensure_steps(1)[OF g c(5) pj] .
  also have "\<dots> = validate (q\<lparr>source := ''cache''\<rparr>) w3"
    using c(1,2,3) by (simp add: io_bind_def lookup_or_provision_def)
  also have "\<dots> = (Inr (p\<lparr>source := ''cache''\<rparr>), w3)"
    using v(2,3,4) by (simp add: validate_eq)
  finally show ?thesis using v(1) by simp
qed

theorem second_call_hits_cache_witness:
  "fst (ensure_admin_credential ''demo-branch'' None
         (snd (ensure_admin_credential ''demo-branch'' None demo_world)))
     = Inr (demo_creds\<lparr>source := ''cache''\<rparr>)
   \<and> snd (ensure_admin_credential ''demo-branch'' None
         (snd (ensure_admin_credential ''demo-branch'' None demo_world)))
     = snd (ensure_admin_credential ''demo-branch'' None demo_world)"
proof -
  have "fst (ensure_admin_credential ''demo-branch'' None demo_world) = Inr demo_creds"
    by code_simp
  then have 1: "ensure_admin_credential ''demo-branch'' None demo_world
      = (Inr demo_creds, snd (ensure_admin_credential ''demo-branch'' None demo_world))"
    by (rule pair_fstI)
  have 2: "truthy (clusterId demo_creds)" by code_simp
  from second_call_hits_cache [OF 1 2] show ?thesis by simp
qed

text \<open>
  \<^bold>\<open>C3\<close>, as stated, fails: \<^verbatim>\<open>delete_branch\<close> asks for the branch's display name after
  the delete, inside \<^verbatim>\<open>try ... except Exception: pass\<close>. When that request fails (the
  branch is gone), the delete still succeeds, the cache entry stays, and the next
  resolution returns it.
\<close>

theorem delete_branch_counterexample:
  "fst (delete_branch ''b1'' cached_world) = Inr (BranchBody (branch_b1 None None))
   \<and> get_cached_admin_credential ''demo-branch'' (Some ''cluster-1'')
        (snd (delete_branch ''b1'' cached_world)) = Some cached_record
   \<and> fst (ensure_admin_credential ''demo-branch'' (Some ''cluster-1'')
        (snd (delete_branch ''b1'' cached_world)))
       = Inr ((from_cache cached_record)\<lparr>database := ''test''\<rparr>)
   \<and> trace (snd (delete_branch ''b1'' cached_world))
       = [Call ListClusters, Call (DeleteBranch ''cluster-1'' ''b1''),
          Call (GetBranch ''cluster-1'' ''b1'')]
   \<and> api cached_world [Call ListClusters, Call (DeleteBranch ''cluster-1'' ''b1'')]
        (GetBranch ''cluster-1'' ''b1'') = None"
  by code_simp

text \<open>
  \<^bold>\<open>C3, amended.\<close> When \<^verbatim>\<open>delete_branch\<close> succeeds and the get-branch request it sends
  after the delete still returns the branch with a non-empty display name, the cache
  entry for (display name, the manager's cluster id) is removed: the lookup misses, and
  a later resolution for that key returns only a freshly created record.
\<close>

theorem delete_branch_invalidates_when_resolvable:
  assumes "get_branch_manager w = (Inr m, w1)"
    and "mgr_delete_branch bid w1 = (Inr deleted, w2)"
    and "mgr_get_branch bid w2 = (Inr info, w3)"
    and "displayName info = Some n" and "n \<noteq> []"
    and "mgr_cluster w3 = (Inr c, w4)"
  shows "delete_branch bid w = (Inr deleted, delete_admin_credential n c w4)
       \<and> get_cached_admin_credential n c (delete_admin_credential n c w4) = None
       \<and> (\<forall>p w'. truthy c \<longrightarrow>
             ensure_admin_credential n c (delete_admin_credential n c w4) = (Inr p, w')
             \<longrightarrow> source p = ''created'')"
proof -
  have "cleanup_cached_credential bid w2 = (Inr (), delete_admin_credential n c w4)"
    using assms(3,4,5,6)
    by (simp add: cleanup_cached_credential_def io_bind_def truthy_def get_or_empty_def)
  then have 1: "delete_branch bid w = (Inr deleted, delete_admin_credential n c w4)"
    using assms(1,2) by (simp add: delete_branch_def io_bind_def)
  have 2: "get_cached_admin_credential n c (delete_admin_credential n c w4) = None"
    by (rule get_cached_delete)
  have 3: "\<forall>p w'. truthy c \<longrightarrow>
             ensure_admin_credential n c (delete_admin_credential n c w4) = (Inr p, w')
             \<longrightarrow> source p = ''created''"
    using miss_is_created 2 by blast
  show ?thesis using 1 2 3 by blast
qed

theorem delete_branch_invalidates_when_resolvable_witness:
  "get_cached_admin_credential ''demo-branch'' (Some ''cluster-1'') lingering_world
     = Some cached_record
   \<and> fst (delete_branch ''b1'' lingering_world) = Inr (BranchBody (branch_b1 None None))
   \<and> get_cached_admin_credential ''demo-branch'' (Some ''cluster-1'')
       (snd (delete_branch ''b1'' lingering_world)) = None"
proof -
  let ?w = lingering_world
  let ?w1 = "snd (get_branch_manager ?w)"
  let ?w2 = "snd (mgr_delete_branch ''b1'' ?w1)"
  let ?w3 = "snd (mgr_get_branch ''b1'' ?w2)"
  let ?w4 = "snd (mgr_cluster ?w3)"
  let ?info = "branch_b1 (Some ''DELETING'') None"
  have "fst (get_branch_manager ?w) = Inr demo_manager_c1" by code_simp
  then have h1: "get_branch_manager ?w = (Inr demo_manager_c1, ?w1)" by (rule pair_fstI)
  have "fst (mgr_delete_branch ''b1'' ?w1) = Inr (BranchBody (branch_b1 None None))"
    by code_simp
  then have h2: "mgr_delete_branch ''b1'' ?w1 = (Inr (BranchBody (branch_b1 None None)), ?w2)"
    by (rule pair_fstI)
  have "fst (mgr_get_branch ''b1'' ?w2) = Inr ?info" by code_simp
  then have h3: "mgr_get_branch ''b1'' ?w2 = (Inr ?info, ?w3)" by (rule pair_fstI)
  have h4: "displayName ?info = Some ''demo-branch''" by code_simp
  have h5: "''demo-branch'' \<noteq> []" by simp
  have "fst (mgr_cluster ?w3) = Inr (Some ''cluster-1'')" by code_simp
  then have h6: "mgr_cluster ?w3 = (Inr (Some ''cluster-1''), ?w4)" by (rule pair_fstI)
  have c: "get_cached_admin_credential ''demo-branch'' (Some ''cluster-1'') ?w
            = Some cached_record" by code_simp
  from delete_branch_invalidates_when_resolvable [OF h1 h2 h3 h4 h5 h6]
  have "delete_branch ''b1'' ?w = (Inr (BranchBody (branch_b1 None None)),
           delete_admin_credential ''demo-branch'' (Some ''cluster-1'') ?w4)"
    "get_cached_admin_credential ''demo-branch'' (Some ''cluster-1'')
       (delete_admin_credential ''demo-branch'' (Some ''cluster-1'') ?w4) = None"
    by blast+
  then show ?thesis using c by simp
qed

text \<open>
  \<^bold>\<open>C4.\<close> \<^verbatim>\<open>_wait_for_branch_active\<close> sends at most \<open>retries\<close> get-branch requests. It
  returns normally exactly when one of them is answered with state ACTIVE, and that one
  is the last it sends: no earlier poll saw ACTIVE. When it has sent \<open>retries\<close> polls and
  every one was answered with another state, it raises the error that carries
  \<open>retries * delay_seconds\<close>. (\<open>polls\<close> reads the answers off the run: the reply the
  control plane gave to each get-branch request, in order.)
\<close>

theorem wait_for_branch_active_polls:
  assumes "wait_for_branch_active bid retries delay w = (r, w')"
  shows "\<exists>evs. trace w' = trace w @ evs \<and>
     length (polls (api w) (trace w) evs) \<le> nat retries
     \<and> (r = Inr () \<longleftrightarrow> (\<exists>p \<in> set (polls (api w) (trace w) evs). active_reply p))
     \<and> (\<forall>p \<in> set (butlast (polls (api w) (trace w) evs)). \<not> active_reply p)
     \<and> (length (polls (api w) (trace w) evs) = nat retries
          \<and> (\<forall>p \<in> set (polls (api w) (trace w) evs). answered_not_active p)
        \<longrightarrow> r = Inl (BranchNotActive bid (retries * int delay)))"
proof -
  have na: "\<And>p. answered_not_active p \<Longrightarrow> \<not> active_reply p"
    by (auto simp: answered_not_active_def active_reply_def split: option.splits)
  obtain a w1 where l: "wait_loop (nat retries) bid delay w = (a, w1)"
    by (cases "wait_loop (nat retries) bid delay w")
  from wait_loop_polls[OF l] obtain evs where
    e: "trace w1 = trace w @ evs"
       "length (polls (api w) (trace w) evs) \<le> nat retries"
       "\<forall>p \<in> set (butlast (polls (api w) (trace w) evs)). answered_not_active p"
       "case a of
          Inr True \<Rightarrow> polls (api w) (trace w) evs \<noteq> []
                       \<and> active_reply (last (polls (api w) (trace w) evs))
        | Inr False \<Rightarrow> length (polls (api w) (trace w) evs) = nat retries
                       \<and> (\<forall>p \<in> set (polls (api w) (trace w) evs). answered_not_active p)
        | Inl e \<Rightarrow> (length (polls (api w) (trace w) evs) < nat retries
                      \<or> None \<in> set (polls (api w) (trace w) evs))
                    \<and> (\<forall>p \<in> set (polls (api w) (trace w) evs). \<not> active_reply p)"
    by blast
  define ps where "ps = polls (api w) (trace w) evs"
  have b: "\<forall>p \<in> set (butlast ps). \<not> active_reply p" using e(3) na by (auto simp: ps_def)
  have w': "w' = w1"
    using assms l
    by (auto simp: wait_for_branch_active_def io_bind_def io_return_def io_raise_def
        split: sum.splits if_splits)
  have main: "(r = Inr () \<longleftrightarrow> (\<exists>p \<in> set ps. active_reply p))
     \<and> (length ps = nat retries \<and> (\<forall>p \<in> set ps. answered_not_active p)
        \<longrightarrow> r = Inl (BranchNotActive bid (retries * int delay)))"
  proof (cases a)
    case (Inl x)
    then have r: "r = Inl x" using assms l by (simp add: wait_for_branch_active_def io_bind_def)
    have "(length ps < nat retries \<or> None \<in> set ps) \<and> (\<forall>p \<in> set ps. \<not> active_reply p)"
      using e(4) Inl by (simp add: ps_def)
    then show ?thesis using r by (auto simp: answered_not_active_def)
  next
    case (Inr seen)
    show ?thesis
    proof (cases seen)
      case True
      then have r: "r = Inr ()"
        using assms l Inr by (simp add: wait_for_branch_active_def io_bind_def io_return_def)
      have "ps \<noteq> [] \<and> active_reply (last ps)" using e(4) Inr True by (simp add: ps_def)
      then have "last ps \<in> set ps" "active_reply (last ps)" by simp_all
      then show ?thesis using r na by blast
    next
      case False
      then have r: "r = Inl (BranchNotActive bid (retries * int delay))"
        using assms l Inr by (simp add: wait_for_branch_active_def io_bind_def io_raise_def)
      have "\<forall>p \<in> set ps. answered_not_active p" using e(4) Inr False by (simp add: ps_def)
      then show ?thesis using r na by auto
    qed
  qed
  show ?thesis
    apply (rule exI[of _ evs])
    using e(1,2) w' b main unfolding ps_def apply blast
    done
qed

text \<open>
  Two polls, both answered CREATING, with two retries of ten seconds: the timeout. And
  the test scenario, CREATING then ACTIVE: the return at the second poll.
\<close>

theorem wait_for_branch_active_polls_witness:
  "fst (wait_for_branch_active ''b1'' 2 10 stuck_world) = Inl (BranchNotActive ''b1'' 20)
   \<and> fst (wait_for_branch_active ''b1'' 20 10 ready_world) = Inr ()"
proof -
  have 1: "fst (wait_for_branch_active ''b1'' 2 10 stuck_world)
           = Inl (BranchNotActive ''b1'' 20)"
  proof -
    let ?w' = "snd (wait_for_branch_active ''b1'' 2 10 stuck_world)"
    let ?r = "fst (wait_for_branch_active ''b1'' 2 10 stuck_world)"
    let ?evs = "[Call (GetBranch ''cluster-1'' ''b1''), Sleep 10,
                 Call (GetBranch ''cluster-1'' ''b1''), Sleep 10]"
    have t: "trace stuck_world = []" "trace ?w' = ?evs" by code_simp+
    have ps: "polls (api stuck_world) [] ?evs
              = [Some (BranchBody (branch_b1 (Some ''CREATING'') None)),
                 Some (BranchBody (branch_b1 (Some ''CREATING'') None))]" by code_simp
    have na: "answered_not_active (Some (BranchBody (branch_b1 (Some ''CREATING'') None)))"
      by code_simp
    have "wait_for_branch_active ''b1'' 2 10 stuck_world = (?r, ?w')" by simp
    from wait_for_branch_active_polls [OF this] obtain evs where
      e: "trace ?w' = trace stuck_world @ evs"
         "length (polls (api stuck_world) (trace stuck_world) evs) = nat 2
            \<and> (\<forall>p \<in> set (polls (api stuck_world) (trace stuck_world) evs).
                  answered_not_active p)
          \<longrightarrow> ?r = Inl (BranchNotActive ''b1'' (2 * int 10))"
      by blast
    have "evs = ?evs" using e(1) t by simp
    then show ?thesis using e(2) t(1) ps na by simp
  qed
  have 2: "fst (wait_for_branch_active ''b1'' 20 10 ready_world) = Inr ()"
  proof -
    let ?w' = "snd (wait_for_branch_active ''b1'' 20 10 ready_world)"
    let ?r = "fst (wait_for_branch_active ''b1'' 20 10 ready_world)"
    let ?evs = "[Call (GetBranch ''cluster-1'' ''b1''), Sleep 10,
                 Call (GetBranch ''cluster-1'' ''b1'')]"
    have t: "trace ready_world = []" "trace ?w' = ?evs" by code_simp+
    have ps: "polls (api ready_world) [] ?evs
              = [Some (BranchBody (branch_b1 (Some ''CREATING'') None)),
                 Some (BranchBody (branch_b1 (Some ''ACTIVE'') None))]" by code_simp
    have a: "active_reply (Some (BranchBody (branch_b1 (Some ''ACTIVE'') None)))"
      by code_simp
    have "wait_for_branch_active ''b1'' 20 10 ready_world = (?r, ?w')" by simp
    from wait_for_branch_active_polls [OF this] obtain evs where
      e: "trace ?w' = trace ready_world @ evs"
         "?r = Inr () \<longleftrightarrow>
            (\<exists>p \<in> set (polls (api ready_world) (trace ready_world) evs). active_reply p)"
      by blast
    have "evs = ?evs" using e(1) t by simp
    then show ?thesis using e(2) t(1) ps a by simp
  qed
  show ?thesis using 1 2 by simp
qed



text \<open>
  \<^bold>\<open>C6\<close>, as stated, fails: the entry is stored before the checks, so when the endpoints
  never appear the call raises the missing-host error and a row without host and port
  is in the file.
\<close>

theorem incomplete_record_counterexample:
  "fst (ensure_admin_credential ''demo-branch'' None bare_world) = Inl MissingHost
   \<and> CREDENTIALS_FILE bare_world = None
   \<and> CREDENTIALS_FILE (snd (ensure_admin_credential ''demo-branch'' None bare_world))
       = Some [\<lparr>col_branchName = ''demo-branch'', col_clusterId = ''cluster-1'',
                 col_username = ''u1'', col_password = ''p1'', col_host = [],
                 col_port = None, col_database = []\<rparr>]"
  by code_simp

text \<open>
  \<^bold>\<open>C6, amended.\<close> The broker writes the cache only after it has created the admin
  user, with whatever endpoint data it found: a call that changes the cache file has
  sent an admin-user request. When the call fails with the missing-host or missing-port
  error, a record that is not usable is cached under the branch name; when it fails
  with any other error, the cache file is unchanged.
\<close>

theorem incomplete_record_is_cached:
  assumes "ensure_admin_credential b clus w = (r, w')"
  shows "(CREDENTIALS_FILE w' \<noteq> CREDENTIALS_FILE w \<longrightarrow>
            (\<exists>evs. trace w' = trace w @ evs \<and> list_ex is_create_admin evs))
       \<and> (r = Inl MissingHost \<or> r = Inl MissingPort \<longrightarrow>
            (\<exists>c q. get_cached_admin_credential b (Some c) w' = Some q \<and> \<not> usable q)
            \<and> (\<exists>evs. trace w' = trace w @ evs \<and> list_ex is_create_admin evs))
       \<and> (\<forall>e. r = Inl e \<longrightarrow> e \<noteq> MissingHost \<longrightarrow> e \<noteq> MissingPort \<longrightarrow>
            CREDENTIALS_FILE w' = CREDENTIALS_FILE w)"
proof (intro conjI impI allI)
  assume "CREDENTIALS_FILE w' \<noteq> CREDENTIALS_FILE w"
  then show "\<exists>evs. trace w' = trace w @ evs \<and> list_ex is_create_admin evs"
    using write_needs_admin[OF assms] by simp
next
  assume a: "r = Inl MissingHost \<or> r = Inl MissingPort"
  then obtain e where e: "r = Inl e" "e = MissingHost \<or> e = MissingPort" by auto
  have "ensure_admin_credential b clus w = (Inl e, w')" using assms e(1) by simp
  from failed_call_cache[OF this] e(2)
  show "\<exists>c q. get_cached_admin_credential b (Some c) w' = Some q \<and> \<not> usable q"
    and "\<exists>evs. trace w' = trace w @ evs \<and> list_ex is_create_admin evs"
    by auto
next
  fix e
  assume e: "r = Inl e" "e \<noteq> MissingHost" "e \<noteq> MissingPort"
  have "ensure_admin_credential b clus w = (Inl e, w')" using assms e(1) by simp
  from failed_call_cache[OF this] e(2,3)
  show "CREDENTIALS_FILE w' = CREDENTIALS_FILE w" by simp
qed

theorem incomplete_record_is_cached_witness:
  "(\<exists>c q. get_cached_admin_credential ''demo-branch'' (Some c)
             (snd (ensure_admin_credential ''demo-branch'' None bare_world)) = Some q
           \<and> \<not> usable q)
   \<and> (\<exists>evs. trace (snd (ensure_admin_credential ''demo-branch'' None bare_world))
               = trace bare_world @ evs \<and> list_ex is_create_admin evs)"
proof -
  have "fst (ensure_admin_credential ''demo-branch'' None bare_world) = Inl MissingHost"
    by code_simp
  then have "ensure_admin_credential ''demo-branch'' None bare_world
      = (Inl MissingHost, snd (ensure_admin_credential ''demo-branch'' None bare_world))"
    by (rule pair_fstI)
  from incomplete_record_is_cached [OF this] show ?thesis by simp
qed

text \<open>
  \<^bold>\<open>C7.\<close> Whatever \<^verbatim>\<open>_ensure_admin_credential\<close> returns has a host and a port, and a
  database whenever a default database is configured. The record it resolved (from
  the cache, or provisioned) goes through the three checks in order: no host raises,
  no port raises, and an empty database is filled from the default.
\<close>

theorem ensure_validates_resolved_record:
  "(\<forall>p w'. ensure_admin_credential b clus w = (Inr p, w') \<longrightarrow>
        truthy (host p) \<and> truthy_int (port p)
        \<and> (truthy (DEFAULT_DATABASE w) \<longrightarrow> database p \<noteq> []))
   \<and> (\<forall>m w1 c w2 q w3.
        get_branch_manager w = (Inr m, w1) \<longrightarrow> resolve_cluster clus w1 = (Inr c, w2)
        \<longrightarrow> truthy (env_project_id w) \<longrightarrow> lookup_or_provision b c w2 = (Inr q, w3) \<longrightarrow>
        ensure_admin_credential b clus w =
          (if \<not> truthy (host q) then (Inl MissingHost, w3)
           else if \<not> truthy_int (port q) then (Inl MissingPort, w3)
           else (Inr (q\<lparr>database := (if truthy (DEFAULT_DATABASE w) \<and> database q = []
                                       then get_or_empty (DEFAULT_DATABASE w)
                                       else database q)\<rparr>), w3)))"
proof (intro conjI allI impI)
  fix m w1 c w2 q w3
  assume h: "get_branch_manager w = (Inr m, w1)" "resolve_cluster clus w1 = (Inr c, w2)"
    "truthy (env_project_id w)" "lookup_or_provision b c w2 = (Inr q, w3)"
  have "outside w3 = outside w"
    using lookup_or_provision_outside[OF h(4)] ensure_steps(2)[OF h(1,2,3)]
    by (simp add: runs_def)
  then have d: "DEFAULT_DATABASE w3 = DEFAULT_DATABASE w" by (rule outside_DEFAULT_DATABASE)
  have "ensure_admin_credential b clus w = validate q w3"
    using ensure_steps(1)[OF h(1,2,3)] h(4) by (simp add: io_bind_def)
  then show "ensure_admin_credential b clus w =
          (if \<not> truthy (host q) then (Inl MissingHost, w3)
           else if \<not> truthy_int (port q) then (Inl MissingPort, w3)
           else (Inr (q\<lparr>database := (if truthy (DEFAULT_DATABASE w) \<and> database q = []
                                       then get_or_empty (DEFAULT_DATABASE w)
                                       else database q)\<rparr>), w3))"
    using d by (simp add: validate_eq)
next
  fix p w'
  assume a: "ensure_admin_credential b clus w = (Inr p, w')"
  from ensure_cases[OF a] obtain m w1 c w2 q w3 where
    s: "get_branch_manager w = (Inr m, w1)" "resolve_cluster clus w1 = (Inr c, w2)"
       "truthy (env_project_id w)" "lookup_or_provision b c w2 = (Inr q, w3)"
       "validate q w3 = (Inr p, w')"
    by auto
  have "outside w3 = outside w"
    using lookup_or_provision_outside[OF s(4)] ensure_steps(2)[OF s(1,2,3)]
    by (simp add: runs_def)
  then have d: "DEFAULT_DATABASE w3 = DEFAULT_DATABASE w" by (rule outside_DEFAULT_DATABASE)
  have v: "truthy (host p) \<and> truthy_int (port p)
        \<and> (truthy (DEFAULT_DATABASE w3) \<longrightarrow> database p \<noteq> [])"
    using validate_Inr[OF s(5)] by blast
  show "truthy (host p)" using v by simp
  show "truthy_int (port p)" using v by simp
  show "truthy (DEFAULT_DATABASE w) \<Longrightarrow> database p \<noteq> []" using v d by simp
qed

text \<open>The test scenario returns its record; a branch that never shows endpoints raises.\<close>

theorem ensure_validates_resolved_record_witness:
  "fst (ensure_admin_credential ''demo-branch'' None demo_world) = Inr demo_creds
   \<and> fst (ensure_admin_credential ''demo-branch'' None bare_world) = Inl MissingHost"
proof -
  have 1: "fst (ensure_admin_credential ''demo-branch'' None demo_world) = Inr demo_creds"
  proof -
    let ?w = demo_world
    let ?w1 = "snd (get_branch_manager ?w)"
    let ?w2 = "snd (resolve_cluster None ?w1)"
    let ?w3 = "snd (lookup_or_provision ''demo-branch'' (Some ''cluster-1'') ?w2)"
    have "fst (get_branch_manager ?w) = Inr demo_manager_c1" by code_simp
    then have h1: "get_branch_manager ?w = (Inr demo_manager_c1, ?w1)" by (rule pair_fstI)
    have "fst (resolve_cluster None ?w1) = Inr (Some ''cluster-1'')" by code_simp
    then have h2: "resolve_cluster None ?w1 = (Inr (Some ''cluster-1''), ?w2)"
      by (rule pair_fstI)
    have h3: "truthy (env_project_id ?w)" by code_simp
    have "fst (lookup_or_provision ''demo-branch'' (Some ''cluster-1'') ?w2) = Inr demo_creds"
      by code_simp
    then have h4: "lookup_or_provision ''demo-branch'' (Some ''cluster-1'') ?w2
                   = (Inr demo_creds, ?w3)" by (rule pair_fstI)
    have q: "truthy (host demo_creds)" "truthy_int (port demo_creds)"
      "\<not> truthy (DEFAULT_DATABASE ?w)" by code_simp+
    from ensure_validates_resolved_record [of "''demo-branch''" None ?w]
    have "ensure_admin_credential ''demo-branch'' None ?w =
          (if \<not> truthy (host demo_creds) then (Inl MissingHost, ?w3)
           else if \<not> truthy_int (port demo_creds) then (Inl MissingPort, ?w3)
           else (Inr (demo_creds\<lparr>database :=
                   (if truthy (DEFAULT_DATABASE ?w) \<and> database demo_creds = []
                    then get_or_empty (DEFAULT_DATABASE ?w)
                    else database demo_creds)\<rparr>), ?w3))"
      using h1 h2 h3 h4 by blast
    then show ?thesis using q by simp
  qed
  have 2: "fst (ensure_admin_credential ''demo-branch'' None bare_world) = Inl MissingHost"
  proof -
    let ?w = bare_world
    let ?w1 = "snd (get_branch_manager ?w)"
    let ?w2 = "snd (resolve_cluster None ?w1)"
    let ?w3 = "snd (lookup_or_provision ''demo-branch'' (Some ''cluster-1'') ?w2)"
    have "fst (get_branch_manager ?w) = Inr demo_manager_c1" by code_simp
    then have h1: "get_branch_manager ?w = (Inr demo_manager_c1, ?w1)" by (rule pair_fstI)
    have "fst (resolve_cluster None ?w1) = Inr (Some ''cluster-1'')" by code_simp
    then have h2: "resolve_cluster None ?w1 = (Inr (Some ''cluster-1''), ?w2)"
      by (rule pair_fstI)
    have h3: "truthy (env_project_id ?w)" by code_simp
    have "fst (lookup_or_provision ''demo-branch'' (Some ''cluster-1'') ?w2) = Inr bare_creds"
      by code_simp
    then have h4: "lookup_or_provision ''demo-branch'' (Some ''cluster-1'') ?w2
                   = (Inr bare_creds, ?w3)" by (rule pair_fstI)
    have q: "\<not> truthy (host bare_creds)" by code_simp
    from ensure_validates_resolved_record [of "''demo-branch''" None ?w]
    have "ensure_admin_credential ''demo-branch'' None ?w =
          (if \<not> truthy (host bare_creds) then (Inl MissingHost, ?w3)
           else if \<not> truthy_int (port bare_creds) then (Inl MissingPort, ?w3)
           else (Inr (bare_creds\<lparr>database :=
                   (if truthy (DEFAULT_DATABASE ?w) \<and> database bare_creds = []
                    then get_or_empty (DEFAULT_DATABASE ?w)
                    else database bare_creds)\<rparr>), ?w3))"
      using h1 h2 h3 h4 by blast
    then show ?thesis using q by simp
  qed
  show ?thesis using 1 2 by simp
qed





text \<open>
  \<^bold>\<open>C10.\<close> \<^verbatim>\<open>run_sql_on_branch\<close>, once the credentials are resolved and the connection is
  open, decides by one test: the statement, stripped of surrounding white space and
  lower-cased, starts with \<^verbatim>\<open>select\<close>. If it does, the statement goes to \<^verbatim>\<open>client.query\<close>
  and the rows come back; otherwise (also for a row-returning statement such as
  \<^verbatim>\<open>SHOW TABLES\<close>) it goes to \<^verbatim>\<open>client.execute\<close> and the row count, the success flag
  and the message come back.
\<close>

theorem run_sql_on_branch_classifies:
  assumes "ensure_admin_credential b None w = (Inr creds, w1)"
      and "connect_branch_client creds w1 = (Inr client, w2)"
  shows "run_sql_on_branch b sql w =
     (if startswith (lower (strip sql)) ''select''
      then ((case db_query w2 (trace w2) client sql of
               None \<Rightarrow> Inl DatabaseError
             | Some rows \<Rightarrow> Inr (RowsResult b rows)),
            log (Query client sql) w2)
      else ((case db_execute w2 (trace w2) client sql of
               None \<Rightarrow> Inl DatabaseError
             | Some r \<Rightarrow> Inr (ExecResult b (rowcount r) (success r) (message r))),
            log (Execute client sql) w2))"
  using assms
  by (simp add: run_sql_on_branch_def io_bind_def io_return_def client_query_def
      client_execute_def split: option.splits)

text \<open>Both paths in the test scenario: a select in mixed case, and \<^verbatim>\<open>SHOW TABLES\<close>.\<close>

theorem run_sql_on_branch_classifies_witness:
  "fst (run_sql_on_branch ''demo-branch'' ''  SeLect 1'' demo_world) =
     Inr (RowsResult ''demo-branch'' [[(''1'', ''1'')]])
   \<and> fst (run_sql_on_branch ''demo-branch'' ''SHOW TABLES'' demo_world) =
     Inr (ExecResult ''demo-branch'' 0 True ''ok'')"
proof -
  let ?w1 = "snd (ensure_admin_credential ''demo-branch'' None demo_world)"
  let ?w2 = "snd (connect_branch_client demo_creds ?w1)"
  have "fst (ensure_admin_credential ''demo-branch'' None demo_world) = Inr demo_creds"
    by code_simp
  then have h1: "ensure_admin_credential ''demo-branch'' None demo_world = (Inr demo_creds, ?w1)"
    by (rule pair_fstI)
  have "fst (connect_branch_client demo_creds ?w1) = Inr demo_conn"
    by code_simp
  then have h2: "connect_branch_client demo_creds ?w1 = (Inr demo_conn, ?w2)"
    by (rule pair_fstI)
  have s1: "startswith (lower (strip ''  SeLect 1'')) ''select''" by code_simp
  have s2: "\<not> startswith (lower (strip ''SHOW TABLES'')) ''select''" by code_simp
  have q: "db_query ?w2 (trace ?w2) demo_conn ''  SeLect 1'' = Some [[(''1'', ''1'')]]"
    by code_simp
  have x: "db_execute ?w2 (trace ?w2) demo_conn ''SHOW TABLES''
           = Some \<lparr>rowcount = 0, success = True, message = ''ok''\<rparr>"
    by code_simp
  show ?thesis
    using run_sql_on_branch_classifies [OF h1 h2, of "''  SeLect 1''"]
      run_sql_on_branch_classifies [OF h1 h2, of "''SHOW TABLES''"] s1 s2 q x
    by simp
qed

end
